theory Spec2Isabelle
  imports Main
begin

section \<open>Python values, exceptions and the outside world\<close>

text \<open>
  The repository holds two copies of \<^verbatim>\<open>alpaca_news_api.py\<close>:
  \<^verbatim>\<open>src/modules/feature_pipeline/src/alpaca_news_api.py\<close> (suffix \<open>_pipeline\<close> below) and
  \<^verbatim>\<open>src/src/alpaca_news_api.py\<close> (suffix \<open>_src\<close>). They differ in the header names, in the
  name of the content flag, in the handling of the HTTP status, in the response field
  that holds the time stamp, and in the name of the fourth field of \<^verbatim>\<open>News\<close>.
  \<^verbatim>\<open>save_news_to_json\<close> and \<^verbatim>\<open>download_historical_news\<close> are the same text in both files.
\<close>

text \<open>A \<^verbatim>\<open>datetime\<close> without time zone, as the script builds it; microseconds are not used.\<close>

record datetime =
  year :: nat
  month :: nat
  day :: nat
  hour :: nat
  minute :: nat
  second :: nat

text \<open>
  The Python values that occur: what \<^verbatim>\<open>response.json()\<close> can return (without
  fractional numbers), and \<^verbatim>\<open>datetime\<close> objects. A dictionary keeps its insertion order.
\<close>

datatype pyval =
    PNone
  | PBool bool
  | PInt int
  | PStr string
  | PList "pyval list"
  | PDict "(string \<times> pyval) list"
  | PDatetime datetime

datatype exn =
    KeyError string
  | RuntimeError string
  | AttributeError string
  | TypeError
  | IndexError
  | ValueError
  | JSONDecodeError
  | RequestException string
  | OSError

text \<open>An instance of a class is its attribute dictionary.\<close>

type_synonym pyobject = "(string \<times> pyval) list"

definition getattr :: "pyobject \<Rightarrow> string \<Rightarrow> exn + pyval" where
  "getattr ob a = (case map_of ob a of None \<Rightarrow> Inl (AttributeError a) | Some v \<Rightarrow> Inr v)"

text \<open>\<^verbatim>\<open>d[k]\<close> with a string key: only a dictionary accepts it.\<close>

fun py_getitem :: "pyval \<Rightarrow> string \<Rightarrow> exn + pyval" where
  "py_getitem (PDict kvs) k = (case map_of kvs k of None \<Rightarrow> Inl (KeyError k) | Some v \<Rightarrow> Inr v)"
| "py_getitem _ k = Inl TypeError"

text \<open>\<^verbatim>\<open>d.get(k, None)\<close>: only a dictionary has the method.\<close>

fun py_get :: "pyval \<Rightarrow> string \<Rightarrow> exn + pyval" where
  "py_get (PDict kvs) k = (case map_of kvs k of None \<Rightarrow> Inr PNone | Some v \<Rightarrow> Inr v)"
| "py_get _ k = Inl (AttributeError ''get'')"

text \<open>\<^verbatim>\<open>for item in v\<close>: a list gives its elements, a dictionary its keys, a string its characters.\<close>

fun py_iter :: "pyval \<Rightarrow> exn + pyval list" where
  "py_iter (PList xs) = Inr xs"
| "py_iter (PDict kvs) = Inr (map (\<lambda>kv. PStr (fst kv)) kvs)"
| "py_iter (PStr s) = Inr (map (\<lambda>c. PStr [c]) s)"
| "py_iter _ = Inl TypeError"

text \<open>\<^verbatim>\<open>xs[-1]\<close>.\<close>

definition py_last :: "'a list \<Rightarrow> exn + 'a" where
  "py_last xs = (if xs = [] then Inl IndexError else Inr (last xs))"

text \<open>Sequencing: an exception of the first computation ends the whole.\<close>

fun bind_exn :: "exn + 'a \<Rightarrow> ('a \<Rightarrow> exn + 'b) \<Rightarrow> exn + 'b" where
  "bind_exn (Inl e) f = Inl e"
| "bind_exn (Inr x) f = f x"

text \<open>Running a function that may raise over a list, left to right, stopping at the first exception.\<close>

fun map_exn :: "('a \<Rightarrow> exn + 'b) \<Rightarrow> 'a list \<Rightarrow> exn + 'b list" where
  "map_exn f [] = Inr []"
| "map_exn f (x # xs) =
     bind_exn (f x) (\<lambda>y. bind_exn (map_exn f xs) (\<lambda>ys. Inr (y # ys)))"

subsection \<open>Decimal numbers and \<^verbatim>\<open>strftime\<close>\<close>

definition digit_char :: "nat \<Rightarrow> char" where
  "digit_char d = ''0123456789'' ! d"

fun dec :: "nat \<Rightarrow> string" where
  "dec n = (if n < 10 then [digit_char n] else dec (n div 10) @ [digit_char (n mod 10)])"

declare dec.simps [simp del]

definition zero_pad :: "nat \<Rightarrow> nat \<Rightarrow> string" where
  "zero_pad w n = replicate (w - length (dec n)) (CHR ''0'') @ dec n"

text \<open>\<^verbatim>\<open>d.strftime("%Y-%m-%d")\<close>, every field zero-padded as the Python documentation gives it.\<close>

definition strftime_date :: "datetime \<Rightarrow> string" where
  "strftime_date d = zero_pad 4 (year d) @ ''-'' @ zero_pad 2 (month d) @ ''-'' @ zero_pad 2 (day d)"

text \<open>\<^verbatim>\<open>d.strftime("%Y-%m-%dT%H:%M:%SZ")\<close>: the fields as they are, then the letter Z.\<close>

definition strftime_iso_z :: "datetime \<Rightarrow> string" where
  "strftime_iso_z d = strftime_date d @ ''T'' @ zero_pad 2 (hour d) @ '':'' @ zero_pad 2 (minute d)
     @ '':'' @ zero_pad 2 (second d) @ ''Z''"

subsection \<open>HTTP and the file system\<close>

record request =
  url :: string
  headers :: "(string \<times> string) list"
  params :: "(string \<times> pyval) list"

text \<open>
  What \<^verbatim>\<open>requests.get\<close> returns: \<open>json\<close> is the outcome of \<^verbatim>\<open>response.json()\<close>,
  \<open>reason\<close> and \<open>final_url\<close> are what \<^verbatim>\<open>raise_for_status\<close> prints.
\<close>

record response =
  status_code :: nat
  reason :: string
  final_url :: string
  resp_text :: string
  json :: "exn + pyval"

text \<open>
  The server and the network: the outcome of a GET request, given the requests sent
  before it. \<open>Inl\<close> is a transport failure raised by \<^verbatim>\<open>requests.get\<close>.
\<close>

type_synonym net = "request list \<Rightarrow> request \<Rightarrow> exn + response"

type_synonym path = "string list"

text \<open>
  The world a run changes: the GET requests sent, oldest first, and the files opened for
  writing with what they hold when closed, oldest first. \<open>writable\<close> says which paths
  \<^verbatim>\<open>open(path, "w")\<close> accepts.
\<close>

record world =
  sent :: "request list"
  written :: "(path \<times> string) list"
  writable :: "path \<Rightarrow> bool"

definition requests_get :: "net \<Rightarrow> request \<Rightarrow> world \<Rightarrow> (exn + response) \<times> world" where
  "requests_get nt req w = (nt (sent w) req, w\<lparr>sent := sent w @ [req]\<rparr>)"

section \<open>Credentials (module level, both files)\<close>

record credentials =
  ALPACA_API_KEY :: string
  ALPACA_SECRET_KEY :: string

definition not_set :: "string \<Rightarrow> exn" where
  "not_set name = KeyError (''Environment variable '' @ [CHR 0x27] @ name @ [CHR 0x27]
     @ '' not set. Please set it before running the script.'')"

text \<open>Lines 11 to 15: the two look-ups in \<^verbatim>\<open>os.environ\<close>, in this order, under one \<^verbatim>\<open>try\<close>.\<close>

definition load_credentials :: "(string \<rightharpoonup> string) \<Rightarrow> exn + credentials" where
  "load_credentials environ =
     (case environ ''ALPACA_API_KEY'' of
        None \<Rightarrow> Inl (not_set ''ALPACA_API_KEY'')
      | Some k \<Rightarrow>
         (case environ ''ALPACA_SECRET_KEY'' of
            None \<Rightarrow> Inl (not_set ''ALPACA_SECRET_KEY'')
          | Some s \<Rightarrow> Inr \<lparr>ALPACA_API_KEY = k, ALPACA_SECRET_KEY = s\<rparr>))"

section \<open>\<^verbatim>\<open>fetch_batch_of_news\<close>\<close>

definition news_url :: string where
  "news_url = ''https://data.alpaca.markets/v1beta1/news''"

text \<open>The request of the feature-pipeline file, lines 40 to 54.\<close>

definition request_pipeline :: "credentials \<Rightarrow> datetime \<Rightarrow> datetime \<Rightarrow> pyval \<Rightarrow> request" where
  "request_pipeline c from_date to_date page_token =
     \<lparr>url = news_url,
      headers = [(''Apca-Api-Key-Id'', ALPACA_API_KEY c),
                 (''Apca-Api-Secret-Key'', ALPACA_SECRET_KEY c)],
      params = [(''start'', PStr (strftime_iso_z from_date)),
                (''end'', PStr (strftime_iso_z to_date)),
                (''limit'', PInt 50),
                (''include_content'', PBool True),
                (''sort'', PStr ''ASC'')]
               @ (if page_token \<noteq> PNone then [(''page_token'', page_token)] else [])\<rparr>"

text \<open>The request of \<^verbatim>\<open>src/src\<close>, lines 40 to 55.\<close>

definition request_src :: "credentials \<Rightarrow> datetime \<Rightarrow> datetime \<Rightarrow> pyval \<Rightarrow> request" where
  "request_src c from_date to_date page_token =
     \<lparr>url = news_url,
      headers = [(''APCA_API_KEY_ID'', ALPACA_API_KEY c),
                 (''APCA_API_SECRET_KEY'', ALPACA_SECRET_KEY c)],
      params = [(''start'', PStr (strftime_iso_z from_date)),
                (''end'', PStr (strftime_iso_z to_date)),
                (''limit'', PInt 50),
                (''including_content'', PBool True),
                (''sort'', PStr ''ASC'')]
               @ (if page_token \<noteq> PNone then [(''page_token'', page_token)] else [])\<rparr>"

text \<open>The dataclass \<^verbatim>\<open>News\<close> of each file: the constructor sets the declared fields.\<close>

definition News_pipeline :: "pyval \<Rightarrow> pyval \<Rightarrow> pyval \<Rightarrow> pyval \<Rightarrow> pyobject" where
  "News_pipeline h s c d = [(''headline'', h), (''summary'', s), (''content'', c), (''date'', d)]"

definition News_src :: "pyval \<Rightarrow> pyval \<Rightarrow> pyval \<Rightarrow> pyval \<Rightarrow> pyobject" where
  "News_src h s c d = [(''headline'', h), (''summary'', s), (''content'', c), (''data'', d)]"

text \<open>Feature pipeline, lines 70 to 77: one record from one entry, keywords evaluated in the order written.\<close>

definition news_of_item_pipeline :: "pyval \<Rightarrow> exn + pyobject" where
  "news_of_item_pipeline n =
     bind_exn (py_getitem n ''headline'') (\<lambda>h.
     bind_exn (py_getitem n ''updated_at'') (\<lambda>d.
     bind_exn (py_getitem n ''summary'') (\<lambda>s.
     bind_exn (py_getitem n ''content'') (\<lambda>c.
     Inr (News_pipeline h s c d)))))"

text \<open>
  \<^verbatim>\<open>src/src\<close>, lines 75 to 80. \<^verbatim>\<open>datetime.fromisoformat\<close> is the library's parser, a
  parameter here; it raises \<^verbatim>\<open>TypeError\<close> on anything but a string.
\<close>

definition py_fromisoformat :: "(string \<Rightarrow> exn + datetime) \<Rightarrow> pyval \<Rightarrow> exn + datetime" where
  "py_fromisoformat fromisoformat t = (case t of PStr ts \<Rightarrow> fromisoformat ts | _ \<Rightarrow> Inl TypeError)"

definition news_of_item_src :: "(string \<Rightarrow> exn + datetime) \<Rightarrow> pyval \<Rightarrow> exn + pyobject" where
  "news_of_item_src fromisoformat item =
     bind_exn (py_getitem item ''headline'') (\<lambda>h.
     bind_exn (py_getitem item ''summary'') (\<lambda>s.
     bind_exn (py_getitem item ''content'') (\<lambda>c.
     bind_exn (py_getitem item ''timestamp'') (\<lambda>t.
     bind_exn (py_fromisoformat fromisoformat t) (\<lambda>d.
     Inr (News_src h s c (PDatetime d)))))))"

text \<open>The part under \<^verbatim>\<open>status_code == 200\<close>, with the constructor of the file as \<open>mk\<close>.\<close>

definition parse_news_json :: "(pyval \<Rightarrow> exn + pyobject) \<Rightarrow> response \<Rightarrow> exn + (pyobject list \<times> pyval)" where
  "parse_news_json mk resp =
     bind_exn (json resp) (\<lambda>news_json.
     bind_exn (py_get news_json ''next_page_token'') (\<lambda>next_page_token.
     bind_exn (py_getitem news_json ''news'') (\<lambda>arr.
     bind_exn (py_iter arr) (\<lambda>items.
     bind_exn (map_exn mk items) (\<lambda>list_of_news.
     Inr (list_of_news, next_page_token))))))"

definition failed_to_fetch :: "string \<Rightarrow> exn" where
  "failed_to_fetch m = RuntimeError (''Failed to fetch news: '' @ m)"

text \<open>Feature pipeline, lines 25 to 82: any status other than 200 raises.\<close>

definition fetch_batch_of_news_pipeline ::
  "net \<Rightarrow> credentials \<Rightarrow> datetime \<Rightarrow> datetime \<Rightarrow> pyval \<Rightarrow> world
     \<Rightarrow> (exn + (pyobject list \<times> pyval)) \<times> world" where
  "fetch_batch_of_news_pipeline nt c from_date to_date page_token w =
     (case requests_get nt (request_pipeline c from_date to_date page_token) w of
        (Inl e, w1) \<Rightarrow> (Inl e, w1)
      | (Inr resp, w1) \<Rightarrow>
          if status_code resp = 200 then (parse_news_json news_of_item_pipeline resp, w1)
          else (Inl (failed_to_fetch (dec (status_code resp) @ '' - '' @ resp_text resp)), w1))"

text \<open>
  \<^verbatim>\<open>response.raise_for_status()\<close>: an \<^verbatim>\<open>HTTPError\<close> (a \<^verbatim>\<open>RequestException\<close>) for a status
  from 400 to 599, nothing otherwise.
\<close>

definition raise_for_status :: "response \<Rightarrow> exn + unit" where
  "raise_for_status resp =
     (if 400 \<le> status_code resp \<and> status_code resp < 500 then
        Inl (RequestException (dec (status_code resp) @ '' Client Error: '' @ reason resp
               @ '' for url: '' @ final_url resp))
      else if 500 \<le> status_code resp \<and> status_code resp < 600 then
        Inl (RequestException (dec (status_code resp) @ '' Server Error: '' @ reason resp
               @ '' for url: '' @ final_url resp))
      else Inr ())"

text \<open>
  \<^verbatim>\<open>src/src\<close>, lines 25 to 82: a \<^verbatim>\<open>RequestException\<close> of the \<^verbatim>\<open>try\<close> block becomes a
  \<^verbatim>\<open>RuntimeError\<close> with its message; a status that is neither 200 nor an error status
  gives the empty list and no token.
\<close>

definition fetch_batch_of_news_src ::
  "(string \<Rightarrow> exn + datetime) \<Rightarrow> net \<Rightarrow> credentials \<Rightarrow> datetime \<Rightarrow> datetime \<Rightarrow> pyval \<Rightarrow> world
     \<Rightarrow> (exn + (pyobject list \<times> pyval)) \<times> world" where
  "fetch_batch_of_news_src fromisoformat nt c from_date to_date page_token w =
     (case requests_get nt (request_src c from_date to_date page_token) w of
        (Inl (RequestException m), w1) \<Rightarrow> (Inl (failed_to_fetch m), w1)
      | (Inl e, w1) \<Rightarrow> (Inl e, w1)
      | (Inr resp, w1) \<Rightarrow>
          (case raise_for_status resp of
             Inl (RequestException m) \<Rightarrow> (Inl (failed_to_fetch m), w1)
           | Inl e \<Rightarrow> (Inl e, w1)
           | Inr _ \<Rightarrow>
               if status_code resp = 200 then (parse_news_json (news_of_item_src fromisoformat) resp, w1)
               else (Inr ([], PNone), w1)))"

section \<open>\<^verbatim>\<open>json.dump\<close> with an indent\<close>

text \<open>
  \<^verbatim>\<open>json.dump(obj, f, indent=4)\<close> writes the chunks of the library's \<^verbatim>\<open>iterencode\<close> to the
  file one after the other, so when a value cannot be encoded the file keeps what was
  written before it. An encoding is the text written and the exception that ended it, if
  any. A \<open>char\<close> stands for a code point below 256; \<^verbatim>\<open>ensure_ascii\<close> is on.
\<close>

type_synonym chunks = "string \<times> exn option"

fun then_emit :: "chunks \<Rightarrow> chunks \<Rightarrow> chunks" where
  "then_emit (s, Some e) c = (s, Some e)"
| "then_emit (s, None) c = (s @ fst c, snd c)"

definition hex_char :: "nat \<Rightarrow> char" where
  "hex_char d = ''0123456789abcdef'' ! d"

definition escape_char :: "char \<Rightarrow> string" where
  "escape_char c =
     (if c = CHR 0x22 then [CHR 0x5C, CHR 0x22]
      else if c = CHR 0x5C then [CHR 0x5C, CHR 0x5C]
      else if c = CHR 0x0A then [CHR 0x5C, CHR ''n'']
      else if c = CHR 0x0D then [CHR 0x5C, CHR ''r'']
      else if c = CHR 0x09 then [CHR 0x5C, CHR ''t'']
      else if c = CHR 0x08 then [CHR 0x5C, CHR ''b'']
      else if c = CHR 0x0C then [CHR 0x5C, CHR ''f'']
      else if 32 \<le> (of_char c :: nat) \<and> (of_char c :: nat) \<le> 126 then [c]
      else [CHR 0x5C, CHR ''u'', CHR ''0'', CHR ''0'',
            hex_char ((of_char c :: nat) div 16), hex_char ((of_char c :: nat) mod 16)])"

definition encode_str :: "string \<Rightarrow> string" where
  "encode_str s = [CHR 0x22] @ concat (map escape_char s) @ [CHR 0x22]"

definition encode_int :: "int \<Rightarrow> string" where
  "encode_int i = (if i < 0 then ''-'' @ dec (nat (- i)) else dec (nat i))"

definition newline_indent :: "nat \<Rightarrow> nat \<Rightarrow> string" where
  "newline_indent ind lvl = CHR 0x0A # replicate (ind * lvl) (CHR '' '')"

fun iterencode :: "nat \<Rightarrow> nat \<Rightarrow> pyval \<Rightarrow> chunks"
  and iterencode_list :: "nat \<Rightarrow> nat \<Rightarrow> pyval list \<Rightarrow> chunks"
  and iterencode_dict :: "nat \<Rightarrow> nat \<Rightarrow> (string \<times> pyval) list \<Rightarrow> chunks" where
  "iterencode ind lvl PNone = (''null'', None)"
| "iterencode ind lvl (PBool b) = (if b then ''true'' else ''false'', None)"
| "iterencode ind lvl (PInt i) = (encode_int i, None)"
| "iterencode ind lvl (PStr s) = (encode_str s, None)"
| "iterencode ind lvl (PDatetime d) = ([], Some TypeError)"
| "iterencode ind lvl (PList []) = (''[]'', None)"
| "iterencode ind lvl (PList (x # xs)) =
     then_emit (''['' @ newline_indent ind (Suc lvl), None)
    (then_emit (iterencode_list ind (Suc lvl) (x # xs))
               (newline_indent ind lvl @ '']'', None))"
| "iterencode ind lvl (PDict []) = (''{}'', None)"
| "iterencode ind lvl (PDict (kv # kvs)) =
     then_emit (''{'' @ newline_indent ind (Suc lvl), None)
    (then_emit (iterencode_dict ind (Suc lvl) (kv # kvs))
               (newline_indent ind lvl @ ''}'', None))"
| "iterencode_list ind lvl [] = ([], None)"
| "iterencode_list ind lvl [x] = iterencode ind lvl x"
| "iterencode_list ind lvl (x # y # ys) =
     then_emit (iterencode ind lvl x)
    (then_emit ('','' @ newline_indent ind lvl, None)
               (iterencode_list ind lvl (y # ys)))"
| "iterencode_dict ind lvl [] = ([], None)"
| "iterencode_dict ind lvl [kv] =
     then_emit (encode_str (fst kv) @ '': '', None) (iterencode ind lvl (snd kv))"
| "iterencode_dict ind lvl (kv # kv' # kvs) =
     then_emit (encode_str (fst kv) @ '': '', None)
    (then_emit (iterencode ind lvl (snd kv))
    (then_emit ('','' @ newline_indent ind lvl, None)
               (iterencode_dict ind lvl (kv' # kvs))))"

section \<open>\<^verbatim>\<open>save_news_to_json\<close> (both files, lines 84 to 101)\<close>

text \<open>One dictionary of the list comprehension: the four attributes are read in the order written.\<close>

definition news_dict :: "pyobject \<Rightarrow> exn + pyval" where
  "news_dict news =
     bind_exn (getattr news ''headline'') (\<lambda>h.
     bind_exn (getattr news ''date'') (\<lambda>d.
     bind_exn (getattr news ''summary'') (\<lambda>s.
     bind_exn (getattr news ''content'') (\<lambda>c.
     Inr (PDict [(''headline'', h), (''date'', d), (''summary'', s), (''content'', c)])))))"

definition save_news_to_json :: "pyobject list \<Rightarrow> path \<Rightarrow> world \<Rightarrow> (exn + unit) \<times> world" where
  "save_news_to_json news_list file_path w =
     (case map_exn news_dict news_list of
        Inl e \<Rightarrow> (Inl e, w)
      | Inr news_data \<Rightarrow>
          if \<not> writable w file_path then (Inl OSError, w)
          else (case iterencode 4 0 (PList news_data) of
                  (txt, None) \<Rightarrow> (Inr (), w\<lparr>written := written w @ [(file_path, txt)]\<rparr>)
                | (txt, Some e) \<Rightarrow> (Inl e, w\<lparr>written := written w @ [(file_path, txt)]\<rparr>)))"

section \<open>\<^verbatim>\<open>download_historical_news\<close> (both files, lines 103 to 137)\<close>

text \<open>
  The function calls the \<^verbatim>\<open>fetch_batch_of_news\<close> of its own file, a parameter here.
  What \<^verbatim>\<open>print\<close> writes is not modelled, only the exceptions that evaluating its argument
  raises.
\<close>

type_synonym fetch = "datetime \<Rightarrow> datetime \<Rightarrow> pyval \<Rightarrow> world \<Rightarrow> (exn + (pyobject list \<times> pyval)) \<times> world"

text \<open>Line 125, the expression \<^verbatim>\<open>batch_of_news[-1].date\<close>.\<close>

definition last_date :: "pyobject list \<Rightarrow> exn + pyval" where
  "last_date batch_of_news = bind_exn (py_last batch_of_news) (\<lambda>l. getattr l ''date'')"

text \<open>Lines 118 to 125, the body of the loop: the new list and the new token, or the exception.\<close>

definition loop_body ::
  "fetch \<Rightarrow> datetime \<Rightarrow> datetime \<Rightarrow> pyobject list \<Rightarrow> pyval \<Rightarrow> world
     \<Rightarrow> (exn + (pyobject list \<times> pyval)) \<times> world" where
  "loop_body fetch_batch_of_news from_date to_date list_of_news next_page_token w =
     (case fetch_batch_of_news from_date to_date next_page_token w of
        (Inl e, w1) \<Rightarrow> (Inl e, w1)
      | (Inr (batch_of_news, next_page_token'), w1) \<Rightarrow>
          (bind_exn (last_date batch_of_news) (\<lambda>_.
           Inr (list_of_news @ batch_of_news, next_page_token')), w1))"

text \<open>Line 117, the loop: it has no bound, so a run that never leaves it is \<open>None\<close>.\<close>

partial_function (option) pagination_loop ::
  "fetch \<Rightarrow> datetime \<Rightarrow> datetime \<Rightarrow> pyobject list \<Rightarrow> pyval \<Rightarrow> world
     \<Rightarrow> ((exn + pyobject list) \<times> world) option" where
  "pagination_loop fetch_batch_of_news from_date to_date list_of_news next_page_token w =
     (if next_page_token \<noteq> PNone then
        (case loop_body fetch_batch_of_news from_date to_date list_of_news next_page_token w of
           (Inl e, w1) \<Rightarrow> Some (Inl e, w1)
         | (Inr (list_of_news', next_page_token'), w1) \<Rightarrow>
             pagination_loop fetch_batch_of_news from_date to_date list_of_news' next_page_token' w1)
      else Some (Inr list_of_news, w))"

declare pagination_loop.simps [code]

text \<open>Lines 113 to 125: the first fetch, without a token, and the loop.\<close>

definition download_pages ::
  "fetch \<Rightarrow> datetime \<Rightarrow> datetime \<Rightarrow> world \<Rightarrow> ((exn + pyobject list) \<times> world) option" where
  "download_pages fetch_batch_of_news from_date to_date w =
     (case fetch_batch_of_news from_date to_date PNone w of
        (Inl e, w1) \<Rightarrow> Some (Inl e, w1)
      | (Inr (list_of_news, next_page_token), w1) \<Rightarrow>
          pagination_loop fetch_batch_of_news from_date to_date list_of_news next_page_token w1)"

text \<open>Lines 128 to 131. \<^verbatim>\<open>DATA_DIR\<close> comes from \<^verbatim>\<open>src.paths\<close>, a parameter here.\<close>

definition path_to_file :: "path \<Rightarrow> datetime \<Rightarrow> datetime \<Rightarrow> path" where
  "path_to_file DATA_DIR from_date to_date =
     DATA_DIR @ [''news_'' @ strftime_date from_date @ ''_'' @ strftime_date to_date @ ''.json'']"

definition download_historical_news ::
  "fetch \<Rightarrow> path \<Rightarrow> datetime \<Rightarrow> datetime \<Rightarrow> world \<Rightarrow> ((exn + path) \<times> world) option" where
  "download_historical_news fetch_batch_of_news DATA_DIR from_date to_date w =
     (case download_pages fetch_batch_of_news from_date to_date w of
        None \<Rightarrow> None
      | Some (Inl e, w1) \<Rightarrow> Some (Inl e, w1)
      | Some (Inr list_of_news, w1) \<Rightarrow>
          (case save_news_to_json list_of_news (path_to_file DATA_DIR from_date to_date) w1 of
             (Inl e, w2) \<Rightarrow> Some (Inl e, w2)
           | (Inr _, w2) \<Rightarrow> Some (Inr (path_to_file DATA_DIR from_date to_date), w2)))"

text \<open>
  The pages of a run, for stating what a run did: \<open>visits fetch f t cursor w ps w'\<close> says
  that calling the fetcher with \<open>cursor\<close> in world \<open>w\<close>, and then each time with the
  token the page before returned, succeeds every time, returns the pages \<open>ps\<close> (records
  and token) in this order, and leaves the world \<open>w'\<close>.
\<close>

fun visits :: "fetch \<Rightarrow> datetime \<Rightarrow> datetime \<Rightarrow> pyval \<Rightarrow> world \<Rightarrow> (pyobject list \<times> pyval) list \<Rightarrow> world \<Rightarrow> bool" where
  "visits fetch f t cursor w [] w' = (w' = w)"
| "visits fetch f t cursor w (p # ps) w' =
     (case fetch f t cursor w of
        (Inl e, w1) \<Rightarrow> False
      | (Inr r, w1) \<Rightarrow> r = p \<and> visits fetch f t (snd p) w1 ps w')"

text \<open>The cursors of a run that starts with \<open>tok\<close> and visits the pages \<open>ps\<close>: the last one is the token the last page returned.\<close>

definition cursors :: "pyval \<Rightarrow> (pyobject list \<times> pyval) list \<Rightarrow> pyval list" where
  "cursors tok ps = tok # map snd ps"

text \<open>
  What a finished loop says about its pages, for the induction over the loop: when it
  returns a list, the list is the start list followed by the pages' records, only the
  last token is absent, and line 125 raised nothing on any page.
\<close>

definition run_pages :: "fetch \<Rightarrow> datetime \<Rightarrow> datetime \<Rightarrow> pyobject list \<Rightarrow> pyval \<Rightarrow> world \<Rightarrow> (exn + pyobject list) \<times> world \<Rightarrow> bool" where
  "run_pages fetch f t acc tok w y = (\<forall>L w'. y = (Inr L, w') \<longrightarrow>
     (\<exists>ps. visits fetch f t tok w ps w' \<and> L = acc @ concat (map fst ps) \<and>
           last (cursors tok ps) = PNone \<and> (\<forall>c\<in>set (butlast (cursors tok ps)). c \<noteq> PNone) \<and>
           (\<forall>p\<in>set ps. \<not> isl (last_date (fst p)))))"

text \<open>For the induction that shows a loop does not return: with this fetcher and these dates, only a loop that starts without a token returns.\<close>

definition never :: "fetch \<Rightarrow> datetime \<Rightarrow> datetime \<Rightarrow> fetch \<Rightarrow> datetime \<Rightarrow> datetime \<Rightarrow> pyobject list \<Rightarrow> pyval \<Rightarrow> world \<Rightarrow> (exn + pyobject list) \<times> world \<Rightarrow> bool" where
  "never fetch0 f0 t0 fetch f t acc tok w y = (fetch = fetch0 \<and> f = f0 \<and> t = t0 \<longrightarrow> tok = PNone)"

section \<open>The two modules and the script\<close>

text \<open>
  Importing either file first reads the credentials; its functions exist only when that
  succeeded. \<^verbatim>\<open>scripts/download_news_from_alpaca.py\<close> imports the module and calls
  \<^verbatim>\<open>download_historical_news\<close> from 20 April 2025 to \<^verbatim>\<open>datetime.now()\<close>.
\<close>

definition run_pipeline ::
  "(string \<rightharpoonup> string) \<Rightarrow> net \<Rightarrow> path \<Rightarrow> datetime \<Rightarrow> datetime \<Rightarrow> world \<Rightarrow> ((exn + path) \<times> world) option" where
  "run_pipeline environ nt DATA_DIR from_date to_date w =
     (case load_credentials environ of
        Inl e \<Rightarrow> Some (Inl e, w)
      | Inr c \<Rightarrow> download_historical_news (fetch_batch_of_news_pipeline nt c) DATA_DIR from_date to_date w)"

definition run_src ::
  "(string \<rightharpoonup> string) \<Rightarrow> (string \<Rightarrow> exn + datetime) \<Rightarrow> net \<Rightarrow> path \<Rightarrow> datetime \<Rightarrow> datetime \<Rightarrow> world
     \<Rightarrow> ((exn + path) \<times> world) option" where
  "run_src environ fromisoformat nt DATA_DIR from_date to_date w =
     (case load_credentials environ of
        Inl e \<Rightarrow> Some (Inl e, w)
      | Inr c \<Rightarrow> download_historical_news (fetch_batch_of_news_src fromisoformat nt c) DATA_DIR from_date to_date w)"

definition download_news_from_alpaca ::
  "(string \<rightharpoonup> string) \<Rightarrow> net \<Rightarrow> path \<Rightarrow> datetime \<Rightarrow> world \<Rightarrow> ((exn + path) \<times> world) option" where
  "download_news_from_alpaca environ nt DATA_DIR now w =
     run_pipeline environ nt DATA_DIR
       \<lparr>year = 2025, month = 4, day = 20, hour = 0, minute = 0, second = 0\<rparr> now w"

section \<open>Example data\<close>

text \<open>Concrete servers, dates and worlds, used to run the definitions.\<close>

definition ex_credentials :: credentials where
  "ex_credentials = \<lparr>ALPACA_API_KEY = ''key'', ALPACA_SECRET_KEY = ''secret''\<rparr>"

definition ex_from :: datetime where
  "ex_from = \<lparr>year = 2025, month = 4, day = 20, hour = 0, minute = 0, second = 0\<rparr>"

definition ex_to :: datetime where
  "ex_to = \<lparr>year = 2025, month = 4, day = 21, hour = 0, minute = 0, second = 0\<rparr>"

definition ex_world :: world where
  "ex_world = \<lparr>sent = [], written = [], writable = (\<lambda>p. True)\<rparr>"

text \<open>An entry that carries both time-stamp fields, so that either file can read it.\<close>

definition ex_entry :: "string \<Rightarrow> pyval" where
  "ex_entry h = PDict [(''headline'', PStr h), (''summary'', PStr ''s''), (''content'', PStr ''c''),
     (''updated_at'', PStr ''2025-04-20T11:30:00Z''), (''timestamp'', PStr ''2025-04-20T10:00:00'')]"

definition ex_page :: "pyval list \<Rightarrow> pyval \<Rightarrow> response" where
  "ex_page entries tok = \<lparr>status_code = 200, reason = ''OK'', final_url = news_url, resp_text = [],
     json = Inr (PDict [(''news'', PList entries), (''next_page_token'', tok)])\<rparr>"

definition ex_token :: "request \<Rightarrow> pyval" where
  "ex_token r = (case map_of (params r) ''page_token'' of None \<Rightarrow> PNone | Some t \<Rightarrow> t)"

text \<open>A server with a single page.\<close>

definition ex_one_page :: net where
  "ex_one_page h r = Inr (ex_page [ex_entry ''a''] PNone)"

text \<open>Servers with several pages; they answer by the page token of the request.\<close>

definition ex_three_pages :: net where
  "ex_three_pages h r =
     (if ex_token r = PNone then Inr (ex_page [ex_entry ''a'', ex_entry ''b''] (PStr ''t1''))
      else if ex_token r = PStr ''t1'' then Inr (ex_page [ex_entry ''c''] (PStr ''t2''))
      else Inr (ex_page [ex_entry ''d''] PNone))"

definition ex_empty_later :: net where
  "ex_empty_later h r =
     (if ex_token r = PNone then Inr (ex_page [ex_entry ''a''] (PStr ''t1''))
      else if ex_token r = PStr ''t1'' then Inr (ex_page [] (PStr ''t2''))
      else Inr (ex_page [ex_entry ''d''] PNone))"

definition ex_error_later :: net where
  "ex_error_later h r =
     (if ex_token r = PNone then Inr (ex_page [ex_entry ''a''] (PStr ''t1''))
      else Inr \<lparr>status_code = 500, reason = ''Internal Server Error'', final_url = news_url,
                resp_text = ''boom'', json = Inl JSONDecodeError\<rparr>)"

definition ex_always_token :: net where
  "ex_always_token h r = Inr (ex_page [ex_entry ''a''] (PStr ''t''))"

text \<open>The records and worlds the example runs produce.\<close>

definition ex_news_pipeline :: "string \<Rightarrow> pyobject" where
  "ex_news_pipeline h = [(''headline'', PStr h), (''summary'', PStr ''s''), (''content'', PStr ''c''),
     (''date'', PStr ''2025-04-20T11:30:00Z'')]"

definition ex_news_src :: "string \<Rightarrow> pyobject" where
  "ex_news_src h = [(''headline'', PStr h), (''summary'', PStr ''s''), (''content'', PStr ''c''),
     (''data'', PDatetime \<lparr>year = 2025, month = 4, day = 20, hour = 10, minute = 0, second = 0\<rparr>)]"

definition ex_sent_pipeline :: "pyval list \<Rightarrow> world" where
  "ex_sent_pipeline toks = ex_world\<lparr>sent := map (request_pipeline ex_credentials ex_from ex_to) toks\<rparr>"

definition ex_sent_src :: "pyval list \<Rightarrow> world" where
  "ex_sent_src toks = ex_world\<lparr>sent := map (request_src ex_credentials ex_from ex_to) toks\<rparr>"

text \<open>A server that has no news at all.\<close>

definition ex_no_news :: net where
  "ex_no_news h r = Inr (ex_page [] PNone)"

text \<open>A stand-in for \<^verbatim>\<open>datetime.fromisoformat\<close> that reads YYYY-MM-DDTHH:MM:SS.\<close>

definition number :: "string \<Rightarrow> nat" where
  "number s = foldl (\<lambda>n c. 10 * n + (of_char c - 48)) 0 s"

definition ex_fromisoformat :: "string \<Rightarrow> exn + datetime" where
  "ex_fromisoformat s =
     (if length s = 19 then
        Inr \<lparr>year = number (take 4 s), month = number (take 2 (drop 5 s)), day = number (take 2 (drop 8 s)),
             hour = number (take 2 (drop 11 s)), minute = number (take 2 (drop 14 s)),
             second = number (take 2 (drop 17 s))\<rparr>
      else Inl ValueError)"

section \<open>Properties\<close>

lemmas ex_defs = ex_credentials_def ex_from_def ex_to_def ex_world_def ex_entry_def ex_page_def
  ex_token_def ex_one_page_def ex_fromisoformat_def number_def

lemmas fetch_defs = fetch_batch_of_news_pipeline_def fetch_batch_of_news_src_def requests_get_def
  raise_for_status_def parse_news_json_def news_of_item_pipeline_def news_of_item_src_def
  News_pipeline_def News_src_def py_fromisoformat_def request_pipeline_def request_src_def

lemmas ex2_defs = ex_three_pages_def ex_empty_later_def ex_error_later_def ex_always_token_def
lemmas ex3_defs = ex_news_pipeline_def ex_news_src_def ex_sent_pipeline_def ex_sent_src_def

lemmas loop_defs = download_pages_def loop_body_def last_date_def py_last_def getattr_def

subsection \<open>Exceptions and lists\<close>

lemma bind_exn_Inr: "bind_exn m f = Inr y \<longleftrightarrow> (\<exists>x. m = Inr x \<and> f x = Inr y)"
  by (cases m) auto

lemma map_exn_Inr:
  "map_exn f xs = Inr ys \<Longrightarrow> length ys = length xs \<and> (\<forall>i<length xs. f (xs ! i) = Inr (ys ! i))"
proof (induction xs arbitrary: ys)
  case Nil
  then show ?case by simp
next
  case (Cons x xs)
  from Cons.prems obtain y ys' where fx: "f x = Inr y" and r: "map_exn f xs = Inr ys'"
    and ys: "ys = y # ys'"
    by (cases "f x"; cases "map_exn f xs") auto
  from Cons.IH[OF r] show ?case
    using fx ys by (auto simp: nth_Cons split: nat.splits)
qed

subsection \<open>What a fetch returns\<close>

lemma news_of_item_pipeline_Inr:
  "news_of_item_pipeline n = Inr r \<Longrightarrow>
   \<exists>h d s c. py_getitem n ''headline'' = Inr h \<and> py_getitem n ''updated_at'' = Inr d \<and>
     py_getitem n ''summary'' = Inr s \<and> py_getitem n ''content'' = Inr c \<and> r = News_pipeline h s c d"
  by (auto simp: news_of_item_pipeline_def bind_exn_Inr)

lemma py_fromisoformat_Inr:
  "py_fromisoformat prs t = Inr d \<longleftrightarrow> (\<exists>ts. t = PStr ts \<and> prs ts = Inr d)"
  by (cases t) (auto simp: py_fromisoformat_def)

lemma news_of_item_src_Inr:
  "news_of_item_src prs n = Inr r \<Longrightarrow>
   \<exists>h s c ts d. py_getitem n ''headline'' = Inr h \<and> py_getitem n ''summary'' = Inr s \<and>
     py_getitem n ''content'' = Inr c \<and> py_getitem n ''timestamp'' = Inr (PStr ts) \<and> prs ts = Inr d \<and>
     r = News_src h s c (PDatetime d)"
  by (auto simp: news_of_item_src_def bind_exn_Inr py_fromisoformat_Inr)

lemma parse_news_json_Inr:
  "parse_news_json mk resp = Inr (news, nxt) \<Longrightarrow>
   \<exists>body arr items. json resp = Inr body \<and> py_get body ''next_page_token'' = Inr nxt \<and>
     py_getitem body ''news'' = Inr arr \<and> py_iter arr = Inr items \<and> map_exn mk items = Inr news"
  by (auto simp: parse_news_json_def bind_exn_Inr)

lemma fetch_pipeline_Inr:
  assumes "fetch_batch_of_news_pipeline nt c f t tok w = (Inr (news, nxt), w')"
  shows "\<exists>resp. nt (sent w) (request_pipeline c f t tok) = Inr resp \<and> status_code resp = 200 \<and>
           parse_news_json news_of_item_pipeline resp = Inr (news, nxt) \<and>
           w' = w\<lparr>sent := sent w @ [request_pipeline c f t tok]\<rparr>"
  using assms
  by (auto simp: fetch_batch_of_news_pipeline_def requests_get_def split: sum.splits if_splits)

lemma fetch_src_Inr_200:
  assumes "fetch_batch_of_news_src prs nt c f t tok w = (Inr (news, nxt), w')"
    and "nt (sent w) (request_src c f t tok) = Inr resp" and "status_code resp = 200"
  shows "parse_news_json (news_of_item_src prs) resp = Inr (news, nxt) \<and>
           w' = w\<lparr>sent := sent w @ [request_src c f t tok]\<rparr>"
  using assms
  by (auto simp: fetch_batch_of_news_src_def requests_get_def raise_for_status_def
        split: sum.splits if_splits exn.splits)

text \<open>
  Claim C2, as the code has it. A call that returns normally on a response with status 200
  returns one record per entry of the response's \<^verbatim>\<open>news\<close> value, in order, with headline,
  summary and content taken over as they are. In the feature-pipeline file the fourth
  attribute, \<^verbatim>\<open>date\<close>, is the entry's \<^verbatim>\<open>updated_at\<close> value as received, not parsed; in
  \<^verbatim>\<open>src/src\<close> the fourth attribute, \<^verbatim>\<open>data\<close>, is the entry's \<^verbatim>\<open>timestamp\<close> string parsed
  by \<^verbatim>\<open>datetime.fromisoformat\<close>.
\<close>

theorem fetch_records_of_entries:
  "(fetch_batch_of_news_pipeline nt c from_date to_date page_token w = (Inr (list_of_news, next_page_token), w') \<longrightarrow>
      (\<exists>resp body arr items.
         nt (sent w) (request_pipeline c from_date to_date page_token) = Inr resp \<and> status_code resp = 200 \<and>
         json resp = Inr body \<and> py_getitem body ''news'' = Inr arr \<and> py_iter arr = Inr items \<and>
         length list_of_news = length items \<and>
         (\<forall>i<length items. \<exists>h d s c.
            py_getitem (items ! i) ''headline'' = Inr h \<and> py_getitem (items ! i) ''updated_at'' = Inr d \<and>
            py_getitem (items ! i) ''summary'' = Inr s \<and> py_getitem (items ! i) ''content'' = Inr c \<and>
            list_of_news ! i = [(''headline'', h), (''summary'', s), (''content'', c), (''date'', d)])))
   \<and>
   (fetch_batch_of_news_src fromisoformat nt c from_date to_date page_token w = (Inr (list_of_news, next_page_token), w') \<and>
    nt (sent w) (request_src c from_date to_date page_token) = Inr resp \<and> status_code resp = 200 \<longrightarrow>
      (\<exists>body arr items.
         json resp = Inr body \<and> py_getitem body ''news'' = Inr arr \<and> py_iter arr = Inr items \<and>
         length list_of_news = length items \<and>
         (\<forall>i<length items. \<exists>h s c ts d.
            py_getitem (items ! i) ''headline'' = Inr h \<and> py_getitem (items ! i) ''summary'' = Inr s \<and>
            py_getitem (items ! i) ''content'' = Inr c \<and> py_getitem (items ! i) ''timestamp'' = Inr (PStr ts) \<and>
            fromisoformat ts = Inr d \<and>
            list_of_news ! i = [(''headline'', h), (''summary'', s), (''content'', c), (''data'', PDatetime d)])))"
proof (intro conjI impI)
  assume a: "fetch_batch_of_news_pipeline nt c from_date to_date page_token w = (Inr (list_of_news, next_page_token), w')"
  from fetch_pipeline_Inr[OF a] obtain resp where
    r: "nt (sent w) (request_pipeline c from_date to_date page_token) = Inr resp" "status_code resp = 200"
    and p: "parse_news_json news_of_item_pipeline resp = Inr (list_of_news, next_page_token)"
    by blast
  from parse_news_json_Inr[OF p] obtain body arr items where
    b: "json resp = Inr body" "py_getitem body ''news'' = Inr arr" "py_iter arr = Inr items"
    and m: "map_exn news_of_item_pipeline items = Inr list_of_news"
    by blast
  from map_exn_Inr[OF m] have len: "length list_of_news = length items"
    and each: "\<forall>i<length items. news_of_item_pipeline (items ! i) = Inr (list_of_news ! i)"
    by auto
  have "\<forall>i<length items. \<exists>h d s c.
            py_getitem (items ! i) ''headline'' = Inr h \<and> py_getitem (items ! i) ''updated_at'' = Inr d \<and>
            py_getitem (items ! i) ''summary'' = Inr s \<and> py_getitem (items ! i) ''content'' = Inr c \<and>
            list_of_news ! i = [(''headline'', h), (''summary'', s), (''content'', c), (''date'', d)]"
    using each news_of_item_pipeline_Inr unfolding News_pipeline_def by blast
  with r b len show "\<exists>resp body arr items.
         nt (sent w) (request_pipeline c from_date to_date page_token) = Inr resp \<and> status_code resp = 200 \<and>
         json resp = Inr body \<and> py_getitem body ''news'' = Inr arr \<and> py_iter arr = Inr items \<and>
         length list_of_news = length items \<and>
         (\<forall>i<length items. \<exists>h d s c.
            py_getitem (items ! i) ''headline'' = Inr h \<and> py_getitem (items ! i) ''updated_at'' = Inr d \<and>
            py_getitem (items ! i) ''summary'' = Inr s \<and> py_getitem (items ! i) ''content'' = Inr c \<and>
            list_of_news ! i = [(''headline'', h), (''summary'', s), (''content'', c), (''date'', d)])"
    by blast
next
  assume a: "fetch_batch_of_news_src fromisoformat nt c from_date to_date page_token w = (Inr (list_of_news, next_page_token), w') \<and>
    nt (sent w) (request_src c from_date to_date page_token) = Inr resp \<and> status_code resp = 200"
  from fetch_src_Inr_200[of fromisoformat nt c from_date to_date page_token w list_of_news next_page_token w' resp] a
  have p: "parse_news_json (news_of_item_src fromisoformat) resp = Inr (list_of_news, next_page_token)"
    by blast
  from parse_news_json_Inr[OF p] obtain body arr items where
    b: "json resp = Inr body" "py_getitem body ''news'' = Inr arr" "py_iter arr = Inr items"
    and m: "map_exn (news_of_item_src fromisoformat) items = Inr list_of_news"
    by blast
  from map_exn_Inr[OF m] have len: "length list_of_news = length items"
    and each: "\<forall>i<length items. news_of_item_src fromisoformat (items ! i) = Inr (list_of_news ! i)"
    by auto
  have "\<forall>i<length items. \<exists>h s c ts d.
            py_getitem (items ! i) ''headline'' = Inr h \<and> py_getitem (items ! i) ''summary'' = Inr s \<and>
            py_getitem (items ! i) ''content'' = Inr c \<and> py_getitem (items ! i) ''timestamp'' = Inr (PStr ts) \<and>
            fromisoformat ts = Inr d \<and>
            list_of_news ! i = [(''headline'', h), (''summary'', s), (''content'', c), (''data'', PDatetime d)]"
    using each news_of_item_src_Inr unfolding News_src_def by blast
  with b len show "\<exists>body arr items.
         json resp = Inr body \<and> py_getitem body ''news'' = Inr arr \<and> py_iter arr = Inr items \<and>
         length list_of_news = length items \<and>
         (\<forall>i<length items. \<exists>h s c ts d.
            py_getitem (items ! i) ''headline'' = Inr h \<and> py_getitem (items ! i) ''summary'' = Inr s \<and>
            py_getitem (items ! i) ''content'' = Inr c \<and> py_getitem (items ! i) ''timestamp'' = Inr (PStr ts) \<and>
            fromisoformat ts = Inr d \<and>
            list_of_news ! i = [(''headline'', h), (''summary'', s), (''content'', c), (''data'', PDatetime d)])"
    by blast
qed

theorem fetch_records_of_entries_witness:
  "fetch_batch_of_news_pipeline ex_one_page ex_credentials ex_from ex_to PNone ex_world =
     (Inr ([[(''headline'', PStr ''a''), (''summary'', PStr ''s''), (''content'', PStr ''c''),
             (''date'', PStr ''2025-04-20T11:30:00Z'')]], PNone),
      ex_world\<lparr>sent := [request_pipeline ex_credentials ex_from ex_to PNone]\<rparr>)
   \<and> (\<exists>items. py_iter (PList [ex_entry ''a'']) = Inr items \<and>
         length [[(''headline'', PStr ''a''), (''summary'', PStr ''s''), (''content'', PStr ''c''),
                  (''date'', PStr ''2025-04-20T11:30:00Z'')]] = length items)
   \<and> fetch_batch_of_news_src ex_fromisoformat ex_one_page ex_credentials ex_from ex_to PNone ex_world =
     (Inr ([[(''headline'', PStr ''a''), (''summary'', PStr ''s''), (''content'', PStr ''c''),
             (''data'', PDatetime \<lparr>year = 2025, month = 4, day = 20, hour = 10, minute = 0, second = 0\<rparr>)]], PNone),
      ex_world\<lparr>sent := [request_src ex_credentials ex_from ex_to PNone]\<rparr>)
   \<and> (\<exists>items. py_iter (PList [ex_entry ''a'']) = Inr items \<and>
         length [[(''headline'', PStr ''a''), (''summary'', PStr ''s''), (''content'', PStr ''c''),
                  (''data'', PDatetime \<lparr>year = 2025, month = 4, day = 20, hour = 10, minute = 0, second = 0\<rparr>)]]
           = length items)"
proof -
  have h1: "fetch_batch_of_news_pipeline ex_one_page ex_credentials ex_from ex_to PNone ex_world =
     (Inr ([[(''headline'', PStr ''a''), (''summary'', PStr ''s''), (''content'', PStr ''c''),
             (''date'', PStr ''2025-04-20T11:30:00Z'')]], PNone),
      ex_world\<lparr>sent := [request_pipeline ex_credentials ex_from ex_to PNone]\<rparr>)"
    by (simp add: ex_defs fetch_defs)
  have h2: "fetch_batch_of_news_src ex_fromisoformat ex_one_page ex_credentials ex_from ex_to PNone ex_world =
     (Inr ([[(''headline'', PStr ''a''), (''summary'', PStr ''s''), (''content'', PStr ''c''),
             (''data'', PDatetime \<lparr>year = 2025, month = 4, day = 20, hour = 10, minute = 0, second = 0\<rparr>)]], PNone),
      ex_world\<lparr>sent := [request_src ex_credentials ex_from ex_to PNone]\<rparr>)"
    by (simp add: ex_defs fetch_defs)
  have h3: "ex_one_page (sent ex_world) (request_src ex_credentials ex_from ex_to PNone) = Inr (ex_page [ex_entry ''a''] PNone)"
    "status_code (ex_page [ex_entry ''a''] PNone) = 200"
    by (simp_all add: ex_one_page_def ex_page_def)
  have j: "json (ex_page [ex_entry ''a''] PNone) = Inr (PDict [(''news'', PList [ex_entry ''a'']), (''next_page_token'', PNone)])"
    "ex_one_page (sent ex_world) (request_pipeline ex_credentials ex_from ex_to PNone) = Inr (ex_page [ex_entry ''a''] PNone)"
    by (simp_all add: ex_one_page_def ex_page_def)
  from fetch_records_of_entries[THEN conjunct1, rule_format, OF h1]
  have c1: "\<exists>items. py_iter (PList [ex_entry ''a'']) = Inr items \<and>
         length [[(''headline'', PStr ''a''), (''summary'', PStr ''s''), (''content'', PStr ''c''),
                  (''date'', PStr ''2025-04-20T11:30:00Z'')]] = length items"
    using j by auto
  from fetch_records_of_entries[THEN conjunct2, rule_format, OF conjI[OF h2 conjI[OF h3]]]
  have c2: "\<exists>items. py_iter (PList [ex_entry ''a'']) = Inr items \<and>
         length [[(''headline'', PStr ''a''), (''summary'', PStr ''s''), (''content'', PStr ''c''),
                  (''data'', PDatetime \<lparr>year = 2025, month = 4, day = 20, hour = 10, minute = 0, second = 0\<rparr>)]]
           = length items"
    using j by auto
  from h1 c1 h2 c2 show ?thesis by blast
qed

text \<open>
  Claim C2 as it is written fails in the feature-pipeline file: the record's date is the
  text of the entry's \<^verbatim>\<open>updated_at\<close> field, not a parsed date, and the entry's
  \<^verbatim>\<open>timestamp\<close> field is not read.
\<close>

theorem fetch_pipeline_date_not_parsed:
  "fst (fetch_batch_of_news_pipeline ex_one_page ex_credentials ex_from ex_to PNone ex_world) =
     Inr ([[(''headline'', PStr ''a''), (''summary'', PStr ''s''), (''content'', PStr ''c''),
            (''date'', PStr ''2025-04-20T11:30:00Z'')]], PNone)"
  by (simp add: ex_defs fetch_defs)



subsection \<open>The request of a fetch\<close>


subsection \<open>Missing credentials\<close>

lemma load_credentials_missing:
  "environ ''ALPACA_API_KEY'' = None \<or> environ ''ALPACA_SECRET_KEY'' = None \<Longrightarrow>
   \<exists>m. load_credentials environ = Inl (KeyError m)"
  by (auto simp: load_credentials_def not_set_def split: option.splits)

text \<open>
  Claim C7. When either credential variable is absent from the environment, a run of
  either module, and so of the script, ends at once with a \<^verbatim>\<open>KeyError\<close>: the world is
  the one it started in, so no request was sent and no file was written.
\<close>

theorem missing_credential_fails_first:
  "environ ''ALPACA_API_KEY'' = None \<or> environ ''ALPACA_SECRET_KEY'' = None \<Longrightarrow>
   (\<exists>m. run_pipeline environ nt DATA_DIR from_date to_date w = Some (Inl (KeyError m), w)) \<and>
   (\<exists>m. run_src environ fromisoformat nt DATA_DIR from_date to_date w = Some (Inl (KeyError m), w)) \<and>
   (\<exists>m. download_news_from_alpaca environ nt DATA_DIR to_date w = Some (Inl (KeyError m), w))"
proof -
  assume "environ ''ALPACA_API_KEY'' = None \<or> environ ''ALPACA_SECRET_KEY'' = None"
  then obtain m where "load_credentials environ = Inl (KeyError m)"
    using load_credentials_missing by blast
  then show ?thesis
    by (simp add: run_pipeline_def run_src_def download_news_from_alpaca_def)
qed

theorem missing_credential_fails_first_witness:
  "(\<exists>m. run_pipeline [''ALPACA_API_KEY'' \<mapsto> ''k''] (\<lambda>h r. Inl (RequestException ''down'')) [''data'']
           \<lparr>year = 2025, month = 4, day = 20, hour = 0, minute = 0, second = 0\<rparr>
           \<lparr>year = 2025, month = 4, day = 21, hour = 0, minute = 0, second = 0\<rparr>
           \<lparr>sent = [], written = [], writable = (\<lambda>p. True)\<rparr>
         = Some (Inl (KeyError m), \<lparr>sent = [], written = [], writable = (\<lambda>p. True)\<rparr>))"
  using missing_credential_fails_first
    [of "[''ALPACA_API_KEY'' \<mapsto> ''k'']" "\<lambda>h r. Inl (RequestException ''down'')" "[''data'']"
        "\<lparr>year = 2025, month = 4, day = 20, hour = 0, minute = 0, second = 0\<rparr>"
        "\<lparr>year = 2025, month = 4, day = 21, hour = 0, minute = 0, second = 0\<rparr>"
        "\<lparr>sent = [], written = [], writable = (\<lambda>p. True)\<rparr>"]
  by simp

subsection \<open>The loop\<close>

lemma not_isl_iff: "\<not> isl x \<longleftrightarrow> (\<exists>y. x = Inr y)"
  by (cases x) auto

lemma loop_body_Inr:
  "loop_body fetch f t acc tok w = (Inr (acc', tok'), w1) \<longleftrightarrow>
   (\<exists>batch. fetch f t tok w = (Inr (batch, tok'), w1) \<and> \<not> isl (last_date batch) \<and> acc' = acc @ batch)"
  by (cases "fetch f t tok w") (auto simp: loop_body_def bind_exn_Inr not_isl_iff split: sum.splits prod.splits)

lemma run_pages_stop: "run_pages fetch f t acc PNone w (Inr acc, w)"
  unfolding run_pages_def
proof (intro allI impI)
  fix L w' assume "(Inr acc, w) = (Inr L, w')"
  then have "visits fetch f t PNone w [] w' \<and> L = acc @ concat (map fst []) \<and>
           last (cursors PNone []) = PNone \<and> (\<forall>c\<in>set (butlast (cursors PNone [])). c \<noteq> PNone) \<and>
           (\<forall>p\<in>set []. \<not> isl (last_date (fst p)))"
    by (simp add: cursors_def)
  then show "\<exists>ps. visits fetch f t PNone w ps w' \<and> L = acc @ concat (map fst ps) \<and>
           last (cursors PNone ps) = PNone \<and> (\<forall>c\<in>set (butlast (cursors PNone ps)). c \<noteq> PNone) \<and>
           (\<forall>p\<in>set ps. \<not> isl (last_date (fst p)))"
    by blast
qed

lemma run_pages_step:
  assumes tok: "tok \<noteq> PNone"
    and fetch: "fetch f t tok w = (Inr (batch, tok'), w1)"
    and ok: "\<not> isl (last_date batch)"
    and rest: "run_pages fetch f t (acc @ batch) tok' w1 y"
  shows "run_pages fetch f t acc tok w y"
  unfolding run_pages_def
proof (intro allI impI)
  fix L w' assume y: "y = (Inr L, w')"
  with rest obtain ps where ps: "visits fetch f t tok' w1 ps w'" "L = (acc @ batch) @ concat (map fst ps)"
    "last (cursors tok' ps) = PNone" "\<forall>c\<in>set (butlast (cursors tok' ps)). c \<noteq> PNone"
    "\<forall>p\<in>set ps. \<not> isl (last_date (fst p))"
    unfolding run_pages_def by blast
  have "visits fetch f t tok w ((batch, tok') # ps) w' \<and> L = acc @ concat (map fst ((batch, tok') # ps)) \<and>
           last (cursors tok ((batch, tok') # ps)) = PNone \<and>
           (\<forall>c\<in>set (butlast (cursors tok ((batch, tok') # ps))). c \<noteq> PNone) \<and>
           (\<forall>p\<in>set ((batch, tok') # ps). \<not> isl (last_date (fst p)))"
    using ps tok fetch ok by (simp add: cursors_def)
  then show "\<exists>ps. visits fetch f t tok w ps w' \<and> L = acc @ concat (map fst ps) \<and>
           last (cursors tok ps) = PNone \<and> (\<forall>c\<in>set (butlast (cursors tok ps)). c \<noteq> PNone) \<and>
           (\<forall>p\<in>set ps. \<not> isl (last_date (fst p)))"
    by blast
qed

lemma pagination_loop_returns_list:
  assumes "pagination_loop fetch f t acc tok w = Some y"
  shows "run_pages fetch f t acc tok w y"
proof (rule pagination_loop.raw_induct[where P = run_pages, OF _ assms])
  fix loop fetch f t acc tok w y
  assume IH: "\<And>f t acc tok w b y. loop f t acc tok w b = Some y \<Longrightarrow> run_pages f t acc tok w b y"
    and eq: "(if tok \<noteq> PNone
      then case loop_body fetch f t acc tok w of
           (Inl e, w1) \<Rightarrow> Some (Inl e, w1)
           | (Inr (list_of_news', next_page_token'), w1) \<Rightarrow> loop fetch f t list_of_news' next_page_token' w1
      else Some (Inr acc, w)) = Some y"
  show "run_pages fetch f t acc tok w y"
  proof (cases "tok = PNone")
    case True
    with eq have "y = (Inr acc, w)" by simp
    with True show ?thesis by (simp add: run_pages_stop)
  next
    case False
    obtain r w1 where lb: "loop_body fetch f t acc tok w = (r, w1)"
      by (cases "loop_body fetch f t acc tok w")
    show ?thesis
    proof (cases r)
      case (Inl e)
      with eq False lb have "y = (Inl e, w1)" by simp
      then show ?thesis by (simp add: run_pages_def)
    next
      case (Inr at)
      obtain acc' tok' where at: "at = (acc', tok')" by (cases at)
      from eq False lb Inr at have rec: "loop fetch f t acc' tok' w1 = Some y" by simp
      from lb Inr at obtain batch where b: "fetch f t tok w = (Inr (batch, tok'), w1)"
        "\<not> isl (last_date batch)" "acc' = acc @ batch"
        by (auto simp: loop_body_Inr)
      from IH[OF rec] b(3) have "run_pages fetch f t (acc @ batch) tok' w1 y" by simp
      from run_pages_step[OF False b(1) b(2) this] show ?thesis .
    qed
  qed
qed

lemma pagination_loop_stop: "pagination_loop fetch f t acc PNone w = Some (Inr acc, w)"
  by (subst pagination_loop.simps) simp

lemma pagination_loop_step:
  "tok \<noteq> PNone \<Longrightarrow> loop_body fetch f t acc tok w = (Inr (acc', tok'), w1) \<Longrightarrow>
   pagination_loop fetch f t acc tok w = pagination_loop fetch f t acc' tok' w1"
  by (subst pagination_loop.simps) simp

lemma pagination_loop_raise:
  "tok \<noteq> PNone \<Longrightarrow> loop_body fetch f t acc tok w = (Inl e, w1) \<Longrightarrow>
   pagination_loop fetch f t acc tok w = Some (Inl e, w1)"
  by (subst pagination_loop.simps) simp

lemma visits_Cons:
  "visits fetch f t tok w (p # ps) w' \<longleftrightarrow>
   (\<exists>w1. fetch f t tok w = (Inr p, w1) \<and> visits fetch f t (snd p) w1 ps w')"
  by (cases "fetch f t tok w") (auto split: sum.splits)

lemma pagination_loop_reaches_end:
  assumes "visits fetch f t tok w ps w'"
    and "last (cursors tok ps) = PNone"
    and "\<forall>c\<in>set (butlast (cursors tok ps)). c \<noteq> PNone"
    and "\<forall>p\<in>set ps. \<not> isl (last_date (fst p))"
  shows "pagination_loop fetch f t acc tok w = Some (Inr (acc @ concat (map fst ps)), w')"
  using assms
proof (induction ps arbitrary: acc tok w)
  case Nil
  then show ?case by (simp add: cursors_def pagination_loop_stop)
next
  case (Cons p ps)
  obtain batch tok' where p: "p = (batch, tok')" by (cases p)
  from Cons.prems(1)[unfolded visits_Cons] p obtain w1 where f: "fetch f t tok w = (Inr (batch, tok'), w1)"
    and v: "visits fetch f t tok' w1 ps w'"
    by auto
  from Cons.prems(3) have tok: "tok \<noteq> PNone" by (simp add: cursors_def)
  from Cons.prems(4) p have ok: "\<not> isl (last_date batch)" by simp
  have lb: "loop_body fetch f t acc tok w = (Inr (acc @ batch, tok'), w1)"
    using f ok by (simp add: loop_body_Inr)
  have l: "last (cursors tok' ps) = PNone"
    using Cons.prems(2) p by (simp add: cursors_def)
  have b: "\<forall>c\<in>set (butlast (cursors tok' ps)). c \<noteq> PNone"
    using Cons.prems(3) p by (simp add: cursors_def)
  have o: "\<forall>p\<in>set ps. \<not> isl (last_date (fst p))"
    using Cons.prems(4) by simp
  from Cons.IH[OF v l b o, of "acc @ batch"] pagination_loop_step[OF tok lb] p
  show ?case by simp
qed

lemma pagination_loop_reaches_raise:
  assumes "visits fetch f t tok w ps w1"
    and "\<forall>c\<in>set (cursors tok ps). c \<noteq> PNone"
    and "\<forall>p\<in>set ps. \<not> isl (last_date (fst p))"
    and "loop_body fetch f t (acc @ concat (map fst ps)) (last (cursors tok ps)) w1 = (Inl e, w2)"
  shows "pagination_loop fetch f t acc tok w = Some (Inl e, w2)"
  using assms
proof (induction ps arbitrary: acc tok w)
  case Nil
  then show ?case by (simp add: cursors_def pagination_loop_raise)
next
  case (Cons p ps)
  obtain batch tok' where p: "p = (batch, tok')" by (cases p)
  from Cons.prems(1)[unfolded visits_Cons] p obtain w0 where f: "fetch f t tok w = (Inr (batch, tok'), w0)"
    and v: "visits fetch f t tok' w0 ps w1"
    by auto
  from Cons.prems(2) have tok: "tok \<noteq> PNone" by (simp add: cursors_def)
  from Cons.prems(3) p have ok: "\<not> isl (last_date batch)" by simp
  have lb: "loop_body fetch f t acc tok w = (Inr (acc @ batch, tok'), w0)"
    using f ok by (simp add: loop_body_Inr)
  have c: "\<forall>c\<in>set (cursors tok' ps). c \<noteq> PNone"
    using Cons.prems(2) p by (simp add: cursors_def)
  have o: "\<forall>p\<in>set ps. \<not> isl (last_date (fst p))"
    using Cons.prems(3) by simp
  have r: "loop_body fetch f t ((acc @ batch) @ concat (map fst ps)) (last (cursors tok' ps)) w1 = (Inl e, w2)"
    using Cons.prems(4) p by (simp add: cursors_def)
  from Cons.IH[OF v c o r] pagination_loop_step[OF tok lb]
  show ?case by simp
qed

lemma pagination_loop_never_returns:
  assumes always: "\<And>acc tok w. tok \<noteq> PNone \<Longrightarrow>
        \<exists>acc' tok' w1. loop_body fetch f t acc tok w = (Inr (acc', tok'), w1) \<and> tok' \<noteq> PNone"
    and tok: "tok \<noteq> PNone"
  shows "pagination_loop fetch f t acc tok w = None"
proof (rule ccontr)
  assume "pagination_loop fetch f t acc tok w \<noteq> None"
  then obtain y where y: "pagination_loop fetch f t acc tok w = Some y" by blast
  have "never fetch f t fetch f t acc tok w y"
  proof (rule pagination_loop.raw_induct[where P = "never fetch f t", OF _ y])
    fix loop fetch' f' t' acc tok w y
    assume IH: "\<And>f' t' acc tok w b y. loop f' t' acc tok w b = Some y \<Longrightarrow> never fetch f t f' t' acc tok w b y"
      and eq: "(if tok \<noteq> PNone
        then case loop_body fetch' f' t' acc tok w of
             (Inl e, w1) \<Rightarrow> Some (Inl e, w1)
             | (Inr (list_of_news', next_page_token'), w1) \<Rightarrow> loop fetch' f' t' list_of_news' next_page_token' w1
        else Some (Inr acc, w)) = Some y"
    show "never fetch f t fetch' f' t' acc tok w y"
      unfolding never_def
    proof (intro impI, rule ccontr)
      assume same: "fetch' = fetch \<and> f' = f \<and> t' = t" and n: "tok \<noteq> PNone"
      from always[OF n, of acc w] obtain acc' tok' w1 where
        lb: "loop_body fetch f t acc tok w = (Inr (acc', tok'), w1)" and n': "tok' \<noteq> PNone"
        by blast
      from eq n same lb have "loop fetch f t acc' tok' w1 = Some y" by simp
      from IH[OF this] n' show False by (simp add: never_def)
    qed
  qed
  with tok show False by (simp add: never_def)
qed

subsection \<open>The pages of a run\<close>

lemma world_fetch_pipeline:
  "snd (fetch_batch_of_news_pipeline nt c f t tok w) = w\<lparr>sent := sent w @ [request_pipeline c f t tok]\<rparr>"
  by (simp add: fetch_batch_of_news_pipeline_def requests_get_def split: sum.splits)

lemma world_fetch_src:
  "snd (fetch_batch_of_news_src prs nt c f t tok w) = w\<lparr>sent := sent w @ [request_src c f t tok]\<rparr>"
  by (simp add: fetch_batch_of_news_src_def requests_get_def split: sum.splits exn.splits)

lemma visits_world:
  assumes step: "\<And>tok w. snd (fetch f t tok w) = w\<lparr>sent := sent w @ [req tok]\<rparr>"
    and "visits fetch f t tok w ps w'"
  shows "w' = w\<lparr>sent := sent w @ map req (butlast (cursors tok ps))\<rparr>"
  using assms(2)
proof (induction ps arbitrary: tok w)
  case Nil
  then show ?case by (simp add: cursors_def)
next
  case (Cons p ps)
  from Cons.prems[unfolded visits_Cons] obtain w1 where f: "fetch f t tok w = (Inr p, w1)"
    and v: "visits fetch f t (snd p) w1 ps w'" by auto
  from step[of tok w] f have w1: "w1 = w\<lparr>sent := sent w @ [req tok]\<rparr>" by simp
  from Cons.IH[OF v] w1 show ?case by (simp add: cursors_def)
qed

lemma download_pages_returns_list:
  assumes "download_pages fetch f t w = Some (Inr L, w')"
  shows "\<exists>ps. ps \<noteq> [] \<and> visits fetch f t PNone w ps w' \<and> L = concat (map fst ps) \<and>
           snd (last ps) = PNone \<and> (\<forall>p\<in>set (butlast ps). snd p \<noteq> PNone) \<and>
           (\<forall>p\<in>set (tl ps). \<not> isl (last_date (fst p)))"
proof -
  obtain r w1 where fr: "fetch f t PNone w = (r, w1)" by (cases "fetch f t PNone w")
  show ?thesis
  proof (cases r)
    case (Inl e)
    with assms fr show ?thesis by (simp add: download_pages_def)
  next
    case (Inr bt)
    obtain batch tok where bt: "bt = (batch, tok)" by (cases bt)
    from assms fr Inr bt have lp: "pagination_loop fetch f t batch tok w1 = Some (Inr L, w')"
      by (simp add: download_pages_def)
    from pagination_loop_returns_list[OF lp] obtain ps where
      ps: "visits fetch f t tok w1 ps w'" "L = batch @ concat (map fst ps)"
        "last (cursors tok ps) = PNone" "\<forall>c\<in>set (butlast (cursors tok ps)). c \<noteq> PNone"
        "\<forall>p\<in>set ps. \<not> isl (last_date (fst p))"
      unfolding run_pages_def by blast
    have l: "snd (last ((batch, tok) # ps)) = PNone"
      using ps(3) by (cases ps rule: rev_cases) (simp_all add: cursors_def)
    have b: "\<forall>p\<in>set (butlast ((batch, tok) # ps)). snd p \<noteq> PNone"
      using ps(4) by (cases ps rule: rev_cases) (auto simp: cursors_def butlast_append)
    have "(batch, tok) # ps \<noteq> [] \<and> visits fetch f t PNone w ((batch, tok) # ps) w' \<and>
          L = concat (map fst ((batch, tok) # ps)) \<and> snd (last ((batch, tok) # ps)) = PNone \<and>
          (\<forall>p\<in>set (butlast ((batch, tok) # ps)). snd p \<noteq> PNone) \<and>
          (\<forall>p\<in>set (tl ((batch, tok) # ps)). \<not> isl (last_date (fst p)))"
      using fr Inr bt ps(1,2,5) l b by simp
    then show ?thesis by blast
  qed
qed



subsection \<open>The records of each file\<close>

lemma getattr_News_pipeline_date: "getattr (News_pipeline h s c d) ''date'' = Inr d"
  by (simp add: getattr_def News_pipeline_def)

lemma getattr_News_src_date: "getattr (News_src h s c d) ''date'' = Inl (AttributeError ''date'')"
  by (simp add: getattr_def News_src_def)

lemma last_date_empty: "last_date [] = Inl IndexError"
  by (simp add: last_date_def py_last_def)

lemma fetch_pipeline_records:
  assumes "fetch_batch_of_news_pipeline nt c f t tok w = (Inr (batch, nxt), w')"
  shows "\<forall>n\<in>set batch. \<exists>h s c d. n = News_pipeline h s c d"
proof -
  from fetch_pipeline_Inr[OF assms] obtain resp where
    "parse_news_json news_of_item_pipeline resp = Inr (batch, nxt)" by blast
  from parse_news_json_Inr[OF this] obtain items where
    m: "map_exn news_of_item_pipeline items = Inr batch" by blast
  from map_exn_Inr[OF m] have len: "length batch = length items"
    and each: "\<forall>i<length items. news_of_item_pipeline (items ! i) = Inr (batch ! i)" by auto
  show ?thesis
  proof
    fix n assume "n \<in> set batch"
    then obtain i where i: "i < length batch" "batch ! i = n" by (auto simp: in_set_conv_nth)
    with each len have "news_of_item_pipeline (items ! i) = Inr n" by simp
    from news_of_item_pipeline_Inr[OF this] show "\<exists>h s c d. n = News_pipeline h s c d" by blast
  qed
qed

lemma fetch_src_records:
  assumes "fetch_batch_of_news_src prs nt c f t tok w = (Inr (batch, nxt), w')"
  shows "\<forall>n\<in>set batch. \<exists>h s c d. n = News_src h s c d"
proof -
  from assms have "batch = [] \<or> (\<exists>resp. parse_news_json (news_of_item_src prs) resp = Inr (batch, nxt))"
    by (auto simp: fetch_batch_of_news_src_def requests_get_def split: sum.splits if_splits exn.splits)
  then show ?thesis
  proof
    assume "batch = []" then show ?thesis by simp
  next
    assume "\<exists>resp. parse_news_json (news_of_item_src prs) resp = Inr (batch, nxt)"
    then obtain resp where "parse_news_json (news_of_item_src prs) resp = Inr (batch, nxt)" by blast
    from parse_news_json_Inr[OF this] obtain items where
      m: "map_exn (news_of_item_src prs) items = Inr batch" by blast
    from map_exn_Inr[OF m] have len: "length batch = length items"
      and each: "\<forall>i<length items. news_of_item_src prs (items ! i) = Inr (batch ! i)" by auto
    show ?thesis
    proof
      fix n assume "n \<in> set batch"
      then obtain i where i: "i < length batch" "batch ! i = n" by (auto simp: in_set_conv_nth)
      with each len have "news_of_item_src prs (items ! i) = Inr n" by simp
      from news_of_item_src_Inr[OF this] show "\<exists>h s c d. n = News_src h s c d" by blast
    qed
  qed
qed

lemma last_date_pipeline:
  assumes "\<forall>n\<in>set batch. \<exists>h s c d. n = News_pipeline h s c d" and "batch \<noteq> []"
  shows "\<not> isl (last_date batch)"
proof -
  from assms have "last batch \<in> set batch" by simp
  with assms(1) obtain h s c d where "last batch = News_pipeline h s c d" by blast
  with assms(2) show ?thesis
    by (simp add: last_date_def py_last_def getattr_News_pipeline_date)
qed

lemma last_date_src:
  assumes "\<forall>n\<in>set batch. \<exists>h s c d. n = News_src h s c d"
  shows "isl (last_date batch)"
proof (cases "batch = []")
  case True then show ?thesis by (simp add: last_date_empty)
next
  case False
  then have "last batch \<in> set batch" by simp
  with assms obtain h s c d where "last batch = News_src h s c d" by blast
  with False show ?thesis
    by (simp add: last_date_def py_last_def getattr_News_src_date)
qed

lemma visits_pages:
  assumes "visits fetch f t tok w ps w'" and "p \<in> set ps"
  shows "\<exists>tok0 w0 w1. fetch f t tok0 w0 = (Inr p, w1)"
  using assms
proof (induction ps arbitrary: tok w)
  case Nil then show ?case by simp
next
  case (Cons q ps)
  from Cons.prems(1)[unfolded visits_Cons] obtain w1 where f: "fetch f t tok w = (Inr q, w1)"
    and v: "visits fetch f t (snd q) w1 ps w'" by auto
  show ?case
  proof (cases "p = q")
    case True with f show ?thesis by blast
  next
    case False
    with Cons.prems(2) have "p \<in> set ps" by simp
    from Cons.IH[OF v this] show ?thesis .
  qed
qed

lemma visits_pipeline_last_date:
  assumes "visits (fetch_batch_of_news_pipeline nt c) f t tok w ps w'" and "p \<in> set ps" and "fst p \<noteq> []"
  shows "\<not> isl (last_date (fst p))"
proof -
  from visits_pages[OF assms(1,2)] obtain tok0 w0 w1 where
    "fetch_batch_of_news_pipeline nt c f t tok0 w0 = (Inr p, w1)" by blast
  then have "fetch_batch_of_news_pipeline nt c f t tok0 w0 = (Inr (fst p, snd p), w1)" by simp
  from fetch_pipeline_records[OF this] assms(3) show ?thesis by (rule last_date_pipeline)
qed

lemma download_pages_raise_later:
  assumes v: "visits fetch f t PNone w ps w1" and ne: "ps \<noteq> []"
    and toks: "\<forall>p\<in>set ps. snd p \<noteq> PNone"
    and ok: "\<forall>p\<in>set (tl ps). \<not> isl (last_date (fst p))"
    and lb: "loop_body fetch f t (concat (map fst ps)) (snd (last ps)) w1 = (Inl e, w2)"
  shows "download_pages fetch f t w = Some (Inl e, w2)"
proof -
  from ne obtain p ps' where ps: "ps = p # ps'" by (cases ps) auto
  obtain batch tok where p: "p = (batch, tok)" by (cases p)
  from v[unfolded ps visits_Cons] p obtain w0 where f: "fetch f t PNone w = (Inr (batch, tok), w0)"
    and v': "visits fetch f t tok w0 ps' w1" by auto
  have c: "\<forall>c\<in>set (cursors tok ps'). c \<noteq> PNone"
    using toks ps p by (auto simp: cursors_def)
  have o: "\<forall>p\<in>set ps'. \<not> isl (last_date (fst p))" using ok ps by simp
  have l: "last (cursors tok ps') = snd (last ps)"
    using ps p by (cases ps' rule: rev_cases) (simp_all add: cursors_def)
  have "loop_body fetch f t (batch @ concat (map fst ps')) (last (cursors tok ps')) w1 = (Inl e, w2)"
    using lb ps p l by simp
  from pagination_loop_reaches_raise[OF v' c o this] f show ?thesis
    by (simp add: download_pages_def)
qed

lemma download_historical_news_raise:
  "download_pages fetch f t w = Some (Inl e, w1) \<Longrightarrow>
   download_historical_news fetch dd f t w = Some (Inl e, w1)"
  by (simp add: download_historical_news_def)

subsection \<open>A response that is not 200\<close>

lemma fetch_pipeline_non_200:
  assumes "nt (sent w) (request_pipeline c f t tok) = Inr resp" and "status_code resp \<noteq> 200"
  shows "fetch_batch_of_news_pipeline nt c f t tok w =
    (Inl (RuntimeError (''Failed to fetch news: '' @ dec (status_code resp) @ '' - '' @ resp_text resp)),
     w\<lparr>sent := sent w @ [request_pipeline c f t tok]\<rparr>)"
  using assms by (simp add: fetch_batch_of_news_pipeline_def requests_get_def failed_to_fetch_def)

text \<open>
  Claim C3, feature-pipeline file. Take any run that has fetched the pages \<open>ps\<close> (none,
  one or several), each with a token and, after the first, with records, so that the loop
  goes on to the next fetch; when the response to that next request has a status other
  than 200, \<^verbatim>\<open>download_historical_news\<close> ends with a \<^verbatim>\<open>RuntimeError\<close> whose message holds
  the status code and the response text, and no file has been written.
\<close>

theorem non_200_aborts_without_file:
  assumes "visits (fetch_batch_of_news_pipeline nt c) from_date to_date PNone w ps w1"
    and "\<forall>p\<in>set ps. snd p \<noteq> PNone"
    and "\<forall>p\<in>set (tl ps). fst p \<noteq> []"
    and "nt (sent w1) (request_pipeline c from_date to_date (last (cursors PNone ps))) = Inr resp"
    and "status_code resp \<noteq> 200"
  shows "\<exists>w'. download_historical_news (fetch_batch_of_news_pipeline nt c) DATA_DIR from_date to_date w =
           Some (Inl (RuntimeError (''Failed to fetch news: '' @ dec (status_code resp) @ '' - '' @ resp_text resp)), w')
         \<and> written w' = written w"
proof -
  let ?fetch = "fetch_batch_of_news_pipeline nt c"
  let ?e = "RuntimeError (''Failed to fetch news: '' @ dec (status_code resp) @ '' - '' @ resp_text resp)"
  let ?w2 = "w1\<lparr>sent := sent w1 @ [request_pipeline c from_date to_date (last (cursors PNone ps))]\<rparr>"
  from fetch_pipeline_non_200[of nt w1 c from_date to_date "last (cursors PNone ps)" resp, OF assms(4,5)]
  have f: "?fetch from_date to_date (last (cursors PNone ps)) w1 = (Inl ?e, ?w2)" .
  from visits_world[of ?fetch from_date to_date "request_pipeline c from_date to_date", OF world_fetch_pipeline assms(1)]
  have wr: "written ?w2 = written w" by simp
  have "download_pages ?fetch from_date to_date w = Some (Inl ?e, ?w2)"
  proof (cases "ps = []")
    case True
    with assms(1) have "w1 = w" by simp
    with f True show ?thesis by (simp add: download_pages_def cursors_def)
  next
    case False
    then have l: "last (cursors PNone ps) = snd (last ps)" by (simp add: cursors_def last_map)
    have ok: "\<forall>p\<in>set (tl ps). \<not> isl (last_date (fst p))"
    proof
      fix p assume p: "p \<in> set (tl ps)"
      then have "p \<in> set ps" by (rule list.set_sel(2)[OF False])
      moreover from p assms(3) have "fst p \<noteq> []" by blast
      ultimately show "\<not> isl (last_date (fst p))"
        using visits_pipeline_last_date[OF assms(1)] by blast
    qed
    from f l have "loop_body ?fetch from_date to_date (concat (map fst ps)) (snd (last ps)) w1 = (Inl ?e, ?w2)"
      by (simp add: loop_body_def)
    from download_pages_raise_later[OF assms(1) False assms(2) ok this] show ?thesis .
  qed
  from download_historical_news_raise[OF this] wr show ?thesis by blast
qed

theorem non_200_aborts_without_file_witness:
  "\<exists>w'. download_historical_news (fetch_batch_of_news_pipeline ex_error_later ex_credentials) [''data''] ex_from ex_to ex_world =
           Some (Inl (RuntimeError ''Failed to fetch news: 500 - boom''), w')
         \<and> written w' = written ex_world"
proof -
  have v: "visits (fetch_batch_of_news_pipeline ex_error_later ex_credentials) ex_from ex_to PNone ex_world
             [([ex_news_pipeline ''a''], PStr ''t1'')] (ex_sent_pipeline [PNone])"
    by (simp add: ex_defs ex2_defs ex3_defs fetch_defs)
  have t: "\<forall>p\<in>set [([ex_news_pipeline ''a''], PStr ''t1'')]. snd p \<noteq> PNone" by simp
  have n: "\<forall>p\<in>set (tl [([ex_news_pipeline ''a''], PStr ''t1'')]). fst p \<noteq> []" by simp
  have r: "ex_error_later (sent (ex_sent_pipeline [PNone]))
             (request_pipeline ex_credentials ex_from ex_to (last (cursors PNone [([ex_news_pipeline ''a''], PStr ''t1'')])))
           = Inr \<lparr>status_code = 500, reason = ''Internal Server Error'', final_url = news_url,
                resp_text = ''boom'', json = Inl JSONDecodeError\<rparr>"
    by (simp add: ex_defs ex2_defs ex3_defs cursors_def request_pipeline_def)
  have s: "status_code \<lparr>status_code = 500, reason = ''Internal Server Error'', final_url = news_url,
                resp_text = ''boom'', json = Inl JSONDecodeError\<rparr> \<noteq> 200" by simp
  have d: "dec 500 = ''500''" by code_simp
  from non_200_aborts_without_file[OF v t n r s, of "[''data'']"] d show ?thesis by simp
qed

subsection \<open>An empty page after the first\<close>

lemma download_empty_page:
  assumes v: "visits fetch f t PNone w ps w1" and ne: "ps \<noteq> []"
    and toks: "\<forall>p\<in>set ps. snd p \<noteq> PNone"
    and ok: "\<forall>p\<in>set (tl ps). \<not> isl (last_date (fst p))"
    and e: "fetch f t (snd (last ps)) w1 = (Inr ([], nxt), w2)"
  shows "download_historical_news fetch dd f t w = Some (Inl IndexError, w2)"
proof -
  from e have "loop_body fetch f t (concat (map fst ps)) (snd (last ps)) w1 = (Inl IndexError, w2)"
    by (simp add: loop_body_def last_date_empty)
  from download_historical_news_raise[OF download_pages_raise_later[OF v ne toks ok this]]
  show ?thesis .
qed

text \<open>
  Claim C9. When a run has fetched the pages \<open>ps\<close>, each with a token and so followed by
  another fetch, and the next fetch succeeds with an empty list of records, then with or
  without a token on that page \<^verbatim>\<open>download_historical_news\<close> ends with \<^verbatim>\<open>IndexError\<close> in the
  world the fetch left: the token is not looked at and no file is written. In
  \<^verbatim>\<open>src/src\<close> the page after the first is the only later page a run reaches.
\<close>

theorem empty_later_page_raises_IndexError:
  "(visits (fetch_batch_of_news_pipeline nt c) from_date to_date PNone w ps w1 \<and> ps \<noteq> [] \<and>
    (\<forall>p\<in>set ps. snd p \<noteq> PNone) \<and> (\<forall>p\<in>set (tl ps). fst p \<noteq> []) \<and>
    fetch_batch_of_news_pipeline nt c from_date to_date (snd (last ps)) w1 = (Inr ([], next_page_token), w2) \<longrightarrow>
      download_historical_news (fetch_batch_of_news_pipeline nt c) DATA_DIR from_date to_date w
        = Some (Inl IndexError, w2) \<and> written w2 = written w)
   \<and>
   (visits (fetch_batch_of_news_src fromisoformat nt c) from_date to_date PNone w [p] w1 \<and> snd p \<noteq> PNone \<and>
    fetch_batch_of_news_src fromisoformat nt c from_date to_date (snd p) w1 = (Inr ([], next_page_token), w2) \<longrightarrow>
      download_historical_news (fetch_batch_of_news_src fromisoformat nt c) DATA_DIR from_date to_date w
        = Some (Inl IndexError, w2) \<and> written w2 = written w)"
proof (intro conjI impI)
  let ?fetch = "fetch_batch_of_news_pipeline nt c"
  assume a: "visits ?fetch from_date to_date PNone w ps w1 \<and> ps \<noteq> [] \<and>
    (\<forall>p\<in>set ps. snd p \<noteq> PNone) \<and> (\<forall>p\<in>set (tl ps). fst p \<noteq> []) \<and>
    ?fetch from_date to_date (snd (last ps)) w1 = (Inr ([], next_page_token), w2)"
  then have v: "visits ?fetch from_date to_date PNone w ps w1" and ne: "ps \<noteq> []"
    and toks: "\<forall>p\<in>set ps. snd p \<noteq> PNone" and nonempty: "\<forall>p\<in>set (tl ps). fst p \<noteq> []"
    and e: "?fetch from_date to_date (snd (last ps)) w1 = (Inr ([], next_page_token), w2)"
    by blast+
  have ok: "\<forall>p\<in>set (tl ps). \<not> isl (last_date (fst p))"
  proof
    fix p assume p: "p \<in> set (tl ps)"
    then have "p \<in> set ps" by (rule list.set_sel(2)[OF ne])
    moreover from p nonempty have "fst p \<noteq> []" by blast
    ultimately show "\<not> isl (last_date (fst p))"
      using visits_pipeline_last_date[OF v] by blast
  qed
  from download_empty_page[OF v ne toks ok e]
  show "download_historical_news ?fetch DATA_DIR from_date to_date w = Some (Inl IndexError, w2)" .
  from visits_world[of ?fetch from_date to_date "request_pipeline c from_date to_date", OF world_fetch_pipeline v]
  have "written w1 = written w" by simp
  moreover from e world_fetch_pipeline[of nt c from_date to_date "snd (last ps)" w1]
  have "written w2 = written w1" by simp
  ultimately show "written w2 = written w" by simp
next
  let ?fetch = "fetch_batch_of_news_src fromisoformat nt c"
  assume a: "visits ?fetch from_date to_date PNone w [p] w1 \<and> snd p \<noteq> PNone \<and>
    ?fetch from_date to_date (snd p) w1 = (Inr ([], next_page_token), w2)"
  then have v: "visits ?fetch from_date to_date PNone w [p] w1" and tok: "snd p \<noteq> PNone"
    and e: "?fetch from_date to_date (snd (last [p])) w1 = (Inr ([], next_page_token), w2)"
    by simp_all
  from download_empty_page[OF v _ _ _ e] tok
  show "download_historical_news ?fetch DATA_DIR from_date to_date w = Some (Inl IndexError, w2)"
    by simp
  from visits_world[of ?fetch from_date to_date "request_src c from_date to_date", OF world_fetch_src v]
  have "written w1 = written w" by simp
  moreover from e world_fetch_src[of fromisoformat nt c from_date to_date "snd p" w1]
  have "written w2 = written w1" by simp
  ultimately show "written w2 = written w" by simp
qed

theorem empty_later_page_raises_IndexError_witness:
  "download_historical_news (fetch_batch_of_news_pipeline ex_empty_later ex_credentials) [''data''] ex_from ex_to ex_world
     = Some (Inl IndexError, ex_sent_pipeline [PNone, PStr ''t1'']) \<and>
   written (ex_sent_pipeline [PNone, PStr ''t1'']) = written ex_world \<and>
   download_historical_news (fetch_batch_of_news_src ex_fromisoformat ex_empty_later ex_credentials) [''data''] ex_from ex_to ex_world
     = Some (Inl IndexError, ex_sent_src [PNone, PStr ''t1'']) \<and>
   written (ex_sent_src [PNone, PStr ''t1'']) = written ex_world"
proof -
  have v1: "visits (fetch_batch_of_news_pipeline ex_empty_later ex_credentials) ex_from ex_to PNone ex_world
             [([ex_news_pipeline ''a''], PStr ''t1'')] (ex_sent_pipeline [PNone])"
    by (simp add: ex_defs ex2_defs ex3_defs fetch_defs)
  have e1: "fetch_batch_of_news_pipeline ex_empty_later ex_credentials ex_from ex_to
              (snd (last [([ex_news_pipeline ''a''], PStr ''t1'')])) (ex_sent_pipeline [PNone])
            = (Inr ([], PStr ''t2''), ex_sent_pipeline [PNone, PStr ''t1''])"
    by (simp add: ex_defs ex2_defs ex3_defs fetch_defs)
  have v2: "visits (fetch_batch_of_news_src ex_fromisoformat ex_empty_later ex_credentials) ex_from ex_to PNone ex_world
             [([ex_news_src ''a''], PStr ''t1'')] (ex_sent_src [PNone])"
    by (simp add: ex_defs ex2_defs ex3_defs fetch_defs)
  have e2: "fetch_batch_of_news_src ex_fromisoformat ex_empty_later ex_credentials ex_from ex_to
              (snd ([ex_news_src ''a''], PStr ''t1'')) (ex_sent_src [PNone])
            = (Inr ([], PStr ''t2''), ex_sent_src [PNone, PStr ''t1''])"
    by (simp add: ex_defs ex2_defs ex3_defs fetch_defs)
  from empty_later_page_raises_IndexError[THEN conjunct1, rule_format, of ex_empty_later ex_credentials ex_from ex_to
      ex_world "[([ex_news_pipeline ''a''], PStr ''t1'')]" "ex_sent_pipeline [PNone]" "PStr ''t2''"
      "ex_sent_pipeline [PNone, PStr ''t1'']" "[''data'']"] v1 e1
  have c1: "download_historical_news (fetch_batch_of_news_pipeline ex_empty_later ex_credentials) [''data''] ex_from ex_to ex_world
     = Some (Inl IndexError, ex_sent_pipeline [PNone, PStr ''t1'']) \<and>
   written (ex_sent_pipeline [PNone, PStr ''t1'']) = written ex_world"
    by simp
  from empty_later_page_raises_IndexError[THEN conjunct2, rule_format, of ex_fromisoformat ex_empty_later ex_credentials ex_from ex_to
      ex_world "([ex_news_src ''a''], PStr ''t1'')" "ex_sent_src [PNone]" "PStr ''t2''"
      "ex_sent_src [PNone, PStr ''t1'']" "[''data'']"] v2 e2
  have c2: "download_historical_news (fetch_batch_of_news_src ex_fromisoformat ex_empty_later ex_credentials) [''data''] ex_from ex_to ex_world
     = Some (Inl IndexError, ex_sent_src [PNone, PStr ''t1'']) \<and>
   written (ex_sent_src [PNone, PStr ''t1'']) = written ex_world"
    by simp
  from c1 c2 show ?thesis by blast
qed

subsection \<open>The attribute \<^verbatim>\<open>date\<close> in \<^verbatim>\<open>src/src\<close>\<close>

lemma news_dict_src: "news_dict (News_src h s c d) = Inl (AttributeError ''date'')"
  by (simp add: news_dict_def getattr_def News_src_def)

lemma save_src_records:
  assumes "news_list \<noteq> []" and "\<forall>n\<in>set news_list. \<exists>h s c d. n = News_src h s c d"
  shows "save_news_to_json news_list file_path w = (Inl (AttributeError ''date''), w)"
proof -
  from assms(1) obtain n ns where l: "news_list = n # ns" by (cases news_list) auto
  with assms(2) obtain h s c d where "n = News_src h s c d" by auto
  with l have "map_exn news_dict news_list = Inl (AttributeError ''date'')"
    by (simp add: news_dict_src)
  then show ?thesis by (simp add: save_news_to_json_def)
qed

lemma visits_src_records:
  assumes "visits (fetch_batch_of_news_src prs nt c) f t tok w ps w'"
  shows "\<forall>n\<in>set (concat (map fst ps)). \<exists>h s c d. n = News_src h s c d"
proof
  fix n assume "n \<in> set (concat (map fst ps))"
  then obtain p where p: "p \<in> set ps" "n \<in> set (fst p)" by auto
  from visits_pages[OF assms p(1)] obtain tok0 w0 w1 where
    "fetch_batch_of_news_src prs nt c f t tok0 w0 = (Inr p, w1)" by blast
  then have "fetch_batch_of_news_src prs nt c f t tok0 w0 = (Inr (fst p, snd p), w1)" by simp
  from fetch_src_records[OF this] p(2) show "\<exists>h s c d. n = News_src h s c d" by blast
qed

lemma download_pages_src_records:
  assumes "download_pages (fetch_batch_of_news_src prs nt c) f t w = Some (Inr L, w1)"
  shows "\<forall>n\<in>set L. \<exists>h s c d. n = News_src h s c d"
proof -
  from download_pages_returns_list[OF assms] obtain ps where
    "visits (fetch_batch_of_news_src prs nt c) f t PNone w ps w1" "L = concat (map fst ps)" by blast
  with visits_src_records show ?thesis by blast
qed

text \<open>
  Claim C10. In \<^verbatim>\<open>src/src\<close> the records are built with the attribute \<^verbatim>\<open>data\<close>, and
  \<^verbatim>\<open>save_news_to_json\<close> reads \<^verbatim>\<open>date\<close>: on every non-empty list of such records it raises
  \<^verbatim>\<open>AttributeError\<close> and leaves the world as it was. So a run that has retrieved at least
  one record ends with that error, and a run that returns a path has retrieved none.
\<close>

theorem src_cannot_persist_records:
  "(news_list \<noteq> [] \<and> (\<forall>n\<in>set news_list. \<exists>h s c d. n = News_src h s c d) \<longrightarrow>
      save_news_to_json news_list file_path w = (Inl (AttributeError ''date''), w))
   \<and>
   (download_pages (fetch_batch_of_news_src fromisoformat nt c) from_date to_date w = Some (Inr list_of_news, w1) \<and>
    list_of_news \<noteq> [] \<longrightarrow>
      download_historical_news (fetch_batch_of_news_src fromisoformat nt c) DATA_DIR from_date to_date w
        = Some (Inl (AttributeError ''date''), w1))
   \<and>
   (download_historical_news (fetch_batch_of_news_src fromisoformat nt c) DATA_DIR from_date to_date w = Some (Inr p, w') \<longrightarrow>
      (\<exists>w1. download_pages (fetch_batch_of_news_src fromisoformat nt c) from_date to_date w = Some (Inr [], w1)))"
proof (intro conjI impI)
  assume "news_list \<noteq> [] \<and> (\<forall>n\<in>set news_list. \<exists>h s c d. n = News_src h s c d)"
  then have ne: "news_list \<noteq> []" and r: "\<forall>n\<in>set news_list. \<exists>h s c d. n = News_src h s c d"
    by simp_all
  from save_src_records[OF ne r]
  show "save_news_to_json news_list file_path w = (Inl (AttributeError ''date''), w)" .
next
  assume a: "download_pages (fetch_batch_of_news_src fromisoformat nt c) from_date to_date w = Some (Inr list_of_news, w1) \<and>
    list_of_news \<noteq> []"
  then have d: "download_pages (fetch_batch_of_news_src fromisoformat nt c) from_date to_date w = Some (Inr list_of_news, w1)"
    and ne: "list_of_news \<noteq> []" by simp_all
  from save_src_records[OF ne download_pages_src_records[OF d]]
  have "save_news_to_json list_of_news (path_to_file DATA_DIR from_date to_date) w1 = (Inl (AttributeError ''date''), w1)" .
  with d show "download_historical_news (fetch_batch_of_news_src fromisoformat nt c) DATA_DIR from_date to_date w
        = Some (Inl (AttributeError ''date''), w1)"
    by (simp add: download_historical_news_def)
next
  assume a: "download_historical_news (fetch_batch_of_news_src fromisoformat nt c) DATA_DIR from_date to_date w = Some (Inr p, w')"
  have "\<exists>L w1. download_pages (fetch_batch_of_news_src fromisoformat nt c) from_date to_date w = Some (Inr L, w1)"
  proof (cases "download_pages (fetch_batch_of_news_src fromisoformat nt c) from_date to_date w")
    case None
    with a show ?thesis by (simp add: download_historical_news_def)
  next
    case (Some y)
    obtain r w1 where y: "y = (r, w1)" by (cases y)
    show ?thesis
    proof (cases r)
      case (Inl e)
      with a Some y show ?thesis by (simp add: download_historical_news_def)
    next
      case (Inr L)
      with Some y show ?thesis by blast
    qed
  qed
  then obtain L w1 where d: "download_pages (fetch_batch_of_news_src fromisoformat nt c) from_date to_date w = Some (Inr L, w1)"
    by blast
  have "L = []"
  proof (rule ccontr)
    assume ne: "L \<noteq> []"
    from save_src_records[OF ne download_pages_src_records[OF d]]
    have "save_news_to_json L (path_to_file DATA_DIR from_date to_date) w1 = (Inl (AttributeError ''date''), w1)" .
    with a d show False by (simp add: download_historical_news_def)
  qed
  with d show "\<exists>w1. download_pages (fetch_batch_of_news_src fromisoformat nt c) from_date to_date w = Some (Inr [], w1)"
    by blast
qed

theorem src_cannot_persist_records_witness:
  "save_news_to_json [ex_news_src ''a''] [''data'', ''out.json''] ex_world = (Inl (AttributeError ''date''), ex_world) \<and>
   download_historical_news (fetch_batch_of_news_src ex_fromisoformat ex_one_page ex_credentials) [''data''] ex_from ex_to ex_world
     = Some (Inl (AttributeError ''date''), ex_sent_src [PNone]) \<and>
   (\<exists>w1. download_pages (fetch_batch_of_news_src ex_fromisoformat ex_no_news ex_credentials) ex_from ex_to ex_world = Some (Inr [], w1))"
proof -
  have r: "\<forall>n\<in>set [ex_news_src ''a'']. \<exists>h s c d. n = News_src h s c d"
    by (simp add: ex_news_src_def News_src_def)
  have d: "download_pages (fetch_batch_of_news_src ex_fromisoformat ex_one_page ex_credentials) ex_from ex_to ex_world
             = Some (Inr [ex_news_src ''a''], ex_sent_src [PNone])"
    by (simp add: loop_defs ex_defs ex3_defs fetch_defs pagination_loop.simps)
  have s: "download_historical_news (fetch_batch_of_news_src ex_fromisoformat ex_no_news ex_credentials) [''data''] ex_from ex_to ex_world
             = Some (Inr (path_to_file [''data''] ex_from ex_to),
                 (ex_sent_src [PNone])\<lparr>written := [(path_to_file [''data''] ex_from ex_to, ''[]'')]\<rparr>)"
    by (simp add: download_historical_news_def save_news_to_json_def loop_defs ex_defs ex3_defs ex_no_news_def fetch_defs pagination_loop.simps)
  from src_cannot_persist_records[THEN conjunct1, rule_format, of "[ex_news_src ''a'']" "[''data'', ''out.json'']" ex_world] r
  have c1: "save_news_to_json [ex_news_src ''a''] [''data'', ''out.json''] ex_world = (Inl (AttributeError ''date''), ex_world)"
    by simp
  from src_cannot_persist_records[THEN conjunct2, THEN conjunct1, rule_format, OF conjI[OF d], of "[''data'']"]
  have c2: "download_historical_news (fetch_batch_of_news_src ex_fromisoformat ex_one_page ex_credentials) [''data''] ex_from ex_to ex_world
     = Some (Inl (AttributeError ''date''), ex_sent_src [PNone])"
    by simp
  from src_cannot_persist_records[THEN conjunct2, THEN conjunct2, rule_format, OF s]
  have c3: "\<exists>w1. download_pages (fetch_batch_of_news_src ex_fromisoformat ex_no_news ex_credentials) ex_from ex_to ex_world = Some (Inr [], w1)" .
  from c1 c2 c3 show ?thesis by blast
qed

subsection \<open>Example of a run over three pages\<close>


subsection \<open>The file of a run\<close>









subsection \<open>When the loop ends\<close>

text \<open>
  On pages that have records the loop behaves as a cursor loop: it ends at the first page
  without a token (\<open>download_pages_reaches_end\<close>), and with a server that always sends a
  token it does not return (\<open>pagination_loop_never_returns\<close>).
\<close>

lemma download_pages_reaches_end:
  assumes v: "visits fetch f t PNone w ps w'" and ne: "ps \<noteq> []"
    and l: "snd (last ps) = PNone"
    and b: "\<forall>p\<in>set (butlast ps). snd p \<noteq> PNone"
    and ok: "\<forall>p\<in>set (tl ps). \<not> isl (last_date (fst p))"
  shows "download_pages fetch f t w = Some (Inr (concat (map fst ps)), w')"
proof -
  from ne obtain p ps' where ps: "ps = p # ps'" by (cases ps) auto
  obtain batch tok where p: "p = (batch, tok)" by (cases p)
  from v[unfolded ps visits_Cons] p obtain w0 where f: "fetch f t PNone w = (Inr (batch, tok), w0)"
    and v': "visits fetch f t tok w0 ps' w'" by auto
  have l': "last (cursors tok ps') = PNone"
    using l ps p by (cases ps' rule: rev_cases) (simp_all add: cursors_def)
  have b': "\<forall>c\<in>set (butlast (cursors tok ps')). c \<noteq> PNone"
    using b ps p by (cases ps' rule: rev_cases) (auto simp: cursors_def butlast_append)
  have o: "\<forall>p\<in>set ps'. \<not> isl (last_date (fst p))" using ok ps by simp
  from pagination_loop_reaches_end[OF v' l' b' o, of batch] f ps p show ?thesis
    by (simp add: download_pages_def)
qed

lemma loop_body_always_token:
  "tok \<noteq> PNone \<Longrightarrow>
   loop_body (fetch_batch_of_news_pipeline ex_always_token ex_credentials) ex_from ex_to acc tok w =
     (Inr (acc @ [ex_news_pipeline ''a''], PStr ''t''),
      w\<lparr>sent := sent w @ [request_pipeline ex_credentials ex_from ex_to tok]\<rparr>)"
  by (simp add: loop_defs ex_defs ex2_defs ex3_defs fetch_defs)

lemma always_token_never_returns:
  "download_pages (fetch_batch_of_news_pipeline ex_always_token ex_credentials) ex_from ex_to w = None"
proof -
  have f: "fetch_batch_of_news_pipeline ex_always_token ex_credentials ex_from ex_to PNone w =
     (Inr ([ex_news_pipeline ''a''], PStr ''t''),
      w\<lparr>sent := sent w @ [request_pipeline ex_credentials ex_from ex_to PNone]\<rparr>)"
    by (simp add: ex_defs ex2_defs ex3_defs fetch_defs)
  have "pagination_loop (fetch_batch_of_news_pipeline ex_always_token ex_credentials) ex_from ex_to
          [ex_news_pipeline ''a''] (PStr ''t'')
          (w\<lparr>sent := sent w @ [request_pipeline ex_credentials ex_from ex_to PNone]\<rparr>) = None"
    by (rule pagination_loop_never_returns) (simp_all add: loop_body_always_token)
  with f show ?thesis by (simp add: download_pages_def)
qed

text \<open>
  Claim C4 at a server whose second page has no records but a token, and whose third page
  has no token: the loop does not end at the third page; it ends at the second page with
  \<^verbatim>\<open>IndexError\<close>, after two requests.
\<close>

theorem pagination_ends_at_empty_page:
  "download_pages (fetch_batch_of_news_pipeline ex_empty_later ex_credentials) ex_from ex_to ex_world
     = Some (Inl IndexError, ex_sent_pipeline [PNone, PStr ''t1''])"
  by (simp add: loop_defs ex_defs ex2_defs ex3_defs fetch_defs pagination_loop.simps)

end
